theory Spec2Isabelle
  imports Complex_Main "HOL-Library.Sublist"
begin

section \<open>JavaScript string primitives\<close>

text \<open>
  Source strings are modelled as \<^typ>\<open>string\<close>: a list of code units restricted to the
  8-bit range.  An optional field (\<open>x?: string\<close>, \<open>string | null | undefined\<close>) is a
  \<^typ>\<open>string option\<close>; \<open>None\<close> stands for both \<open>null\<close> and \<open>undefined\<close>.
\<close>

definition truthy :: "string option \<Rightarrow> bool" where
  \<comment> \<open>JavaScript truthiness of an optional string: defined and not the empty string.\<close>
  "truthy v = (case v of None \<Rightarrow> False | Some s \<Rightarrow> s \<noteq> [])"

definition toLowerChar :: "char \<Rightarrow> char" where
  "toLowerChar c =
     (let n = (of_char c :: nat)
      in if (65 \<le> n \<and> n \<le> 90) \<or> (192 \<le> n \<and> n \<le> 222 \<and> n \<noteq> 215)
         then char_of (n + 32) else c)"

definition toLowerCase :: "string \<Rightarrow> string" where
  "toLowerCase s = map toLowerChar s"

fun startsWith :: "string \<Rightarrow> string \<Rightarrow> bool" where
  "startsWith s [] = True"
| "startsWith [] (p # ps) = False"
| "startsWith (c # cs) (p # ps) = (c = p \<and> startsWith cs ps)"

fun includes_str :: "string \<Rightarrow> string \<Rightarrow> bool" where
  "includes_str [] sub = (sub = [])"
| "includes_str (c # cs) sub = (startsWith (c # cs) sub \<or> includes_str cs sub)"

section \<open>Scoring engine (server/agent/tools.ts)\<close>

record AuditResult =
  httpsOk :: bool
  mobileOk :: bool
  hasBooking :: bool
  schemaOk :: bool
  cmsHint :: "string option"
  lcpMs :: "int option"
  cls :: "int option"
  analyticsPixels :: "string list option"

record ContactInfo =
  phone :: "string option"
  email :: "string option"
  website :: "string option"

record ScoreResult =
  need :: int
  "value" :: int
  reachability :: int
  total :: int
  reasons :: "string list"

definition Math_round :: "rat \<Rightarrow> int" where
  \<comment> \<open>\<open>Math.round\<close>: the nearest integer, a tie going up.\<close>
  "Math_round x = \<lfloor>x + 1 / 2\<rfloor>"

definition highValueCategories :: "string list" where
  "highValueCategories =
     [''dentist'', ''doctor'', ''lawyer'', ''chiropractor'', ''medical'', ''health'']"

definition validCmsHints :: "string list" where
  "validCmsHints = [''wordpress'', ''wix'', ''squarespace'', ''webflow'', ''shopify'']"

definition noPixels :: "string list option \<Rightarrow> bool" where
  \<comment> \<open>\<open>!auditResults.analyticsPixels || auditResults.analyticsPixels.length === 0\<close>\<close>
  "noPixels px = (case px of None \<Rightarrow> True | Some xs \<Rightarrow> xs = [])"

definition str_of :: "string option \<Rightarrow> string" where
  \<comment> \<open>How a template literal renders an optional string.\<close>
  "str_of v = (case v of None \<Rightarrow> ''undefined'' | Some s \<Rightarrow> s)"

definition bump :: "bool \<Rightarrow> int \<Rightarrow> string \<Rightarrow> int \<times> string list \<Rightarrow> int \<times> string list" where
  \<comment> \<open>The block \<open>if (c) { score += k; reasons.push(msg); }\<close> on the pair
      of the running score and the reasons.\<close>
  "bump c k msg st = (if c then (fst st + k, snd st @ [msg]) else st)"

definition scoreLead ::
  "string \<Rightarrow> AuditResult \<Rightarrow> ContactInfo \<Rightarrow> string \<Rightarrow> ScoreResult" where
  "scoreLead businessName auditResults contactInfo category =
    (let reasons = [];
         needScore = (0::int);
         (needScore, reasons) =
           bump (\<not> httpsOk auditResults) 25 ''Missing HTTPS security'' (needScore, reasons);
         (needScore, reasons) =
           bump (\<not> mobileOk auditResults) 25 ''Not mobile optimized'' (needScore, reasons);
         (needScore, reasons) =
           bump (\<not> hasBooking auditResults) 30 ''No online booking system''
             (needScore, reasons);
         (needScore, reasons) =
           bump (\<not> schemaOk auditResults) 10 ''Missing structured data'' (needScore, reasons);
         (needScore, reasons) =
           bump (noPixels (analyticsPixels auditResults)) 10 ''No analytics tracking''
             (needScore, reasons);
         valueScore = (50::int);
         (valueScore, reasons) =
           bump (list_ex (\<lambda>cat. includes_str (toLowerCase category) cat) highValueCategories)
             30 ''High-value industry'' (valueScore, reasons);
         (valueScore, reasons) =
           bump (truthy (cmsHint auditResults)
                 \<and> str_of (cmsHint auditResults) \<in> set validCmsHints)
             20 (''Uses '' @ str_of (cmsHint auditResults) @ '' (easy to upgrade)'')
             (valueScore, reasons);
         reachabilityScore = (0::int);
         (reachabilityScore, reasons) =
           bump (truthy (phone contactInfo)) 40 ''Phone number available''
             (reachabilityScore, reasons);
         (reachabilityScore, reasons) =
           bump (truthy (email contactInfo)) 30 ''Email address available''
             (reachabilityScore, reasons);
         (reachabilityScore, reasons) =
           bump (truthy (website contactInfo)) 30 ''Website available''
             (reachabilityScore, reasons);
         total = Math_round (of_int (needScore + valueScore + reachabilityScore) / 3)
     in \<lparr> need = needScore, value = valueScore, reachability = reachabilityScore,
          total = total, reasons = reasons \<rparr>)"

definition defaultAudit :: "string \<Rightarrow> AuditResult" where
  \<comment> \<open>The record literal returned when there is nothing to audit: by the \<open>catch\<close> of
      \<open>auditSite\<close> (hint \<open>timeout\<close> or \<open>error\<close>) and by \<open>executeMission\<close> for a place
      without a website (hint \<open>none\<close>) or a thrown audit (hint \<open>error\<close>).  The fields the
      literal leaves out are \<open>undefined\<close>.\<close>
  "defaultAudit hint =
     \<lparr> httpsOk = False, mobileOk = False, hasBooking = False, schemaOk = False,
       cmsHint = Some hint, lcpMs = None, cls = None, analyticsPixels = None \<rparr>"

definition acmeContact :: ContactInfo where
  \<comment> \<open>The contact details of a place with a phone and a website.\<close>
  "acmeContact =
     \<lparr> ContactInfo.phone = Some ''619-555-0001'', ContactInfo.email = None,
       ContactInfo.website = Some ''acme.com'' \<rparr>"

section \<open>Identity normalizer (server/utils/normalize.ts)\<close>

definition isDigit :: "char \<Rightarrow> bool" where
  \<comment> \<open>The class \<open>\d\<close>.\<close>
  "isDigit c = (48 \<le> (of_char c :: nat) \<and> (of_char c :: nat) \<le> 57)"

definition isSpace :: "char \<Rightarrow> bool" where
  \<comment> \<open>The class \<open>\s\<close>, which is also what \<open>trim\<close> strips: tab, line feed, vertical tab,
      form feed, carriage return, space and no-break space.\<close>
  "isSpace c = ((of_char c :: nat) \<in> {9, 10, 11, 12, 13, 32, 160})"

definition isWord :: "char \<Rightarrow> bool" where
  \<comment> \<open>The class \<open>\w\<close>: ASCII letters, digits and the underscore.\<close>
  "isWord c =
     (let n = (of_char c :: nat)
      in (48 \<le> n \<and> n \<le> 57) \<or> (65 \<le> n \<and> n \<le> 90) \<or> (97 \<le> n \<and> n \<le> 122) \<or> n = 95)"

definition trim :: "string \<Rightarrow> string" where
  "trim s = rev (dropWhile isSpace (rev (dropWhile isSpace s)))"

definition normalizePhone :: "string option \<Rightarrow> string option" where
  "normalizePhone raw =
     (case raw of
        None \<Rightarrow> None
      | Some p \<Rightarrow>
          if p = [] \<or> trim p = [] then None
          else
            let digits = filter isDigit p
            in if length digits = 10 then Some (''+1'' @ digits)
               else if length digits = 11 \<and> startsWith digits ''1'' then Some (''+'' @ digits)
               else if 10 \<le> length digits \<and> length digits \<le> 15 then Some (''+'' @ digits)
               else None)"

definition isAlnum :: "char \<Rightarrow> bool" where
  \<comment> \<open>The class \<open>[a-zA-Z0-9]\<close>.\<close>
  "isAlnum c =
     (let n = (of_char c :: nat)
      in (48 \<le> n \<and> n \<le> 57) \<or> (65 \<le> n \<and> n \<le> 90) \<or> (97 \<le> n \<and> n \<le> 122))"

definition isLabelChar :: "char \<Rightarrow> bool" where
  \<comment> \<open>The class \<open>[-a-zA-Z0-9]\<close>.\<close>
  "isLabelChar c = (isAlnum c \<or> c = CHR ''-'')"

fun collapseSpaces :: "bool \<Rightarrow> string \<Rightarrow> string" where
  \<comment> \<open>\<open>replace(/\s+/g, " ")\<close>: every run of white space becomes one space.  The flag
      says that the previous character was white space.\<close>
  "collapseSpaces inRun [] = []"
| "collapseSpaces inRun (c # cs) =
     (if isSpace c
      then (if inRun then collapseSpaces True cs else CHR '' '' # collapseSpaces True cs)
      else c # collapseSpaces False cs)"

definition normalizeName :: "string \<Rightarrow> string" where
  "normalizeName nm =
     trim (collapseSpaces False
       (filter (\<lambda>c. isWord c \<or> isSpace c) (toLowerCase nm)))"

fun fillRow :: "char \<Rightarrow> string \<Rightarrow> nat list \<Rightarrow> nat list \<Rightarrow> nat \<Rightarrow> nat list" where
  \<comment> \<open>The inner loop over \<open>j\<close>: \<open>bc\<close> is \<open>b.charAt(i - 1)\<close>, the string holds the
      characters of \<open>a\<close> from index \<open>j - 1\<close> on, \<open>prev\<close> is \<open>matrix[i - 1]\<close> and \<open>cur\<close> is
      \<open>matrix[i]\<close> as far as it is filled.\<close>
  "fillRow bc [] prev cur j = cur"
| "fillRow bc (ac # as) prev cur j =
     fillRow bc as prev
       (cur @ [if bc = ac then prev ! (j - 1)
               else min (min (prev ! (j - 1) + 1) (cur ! (j - 1) + 1)) (prev ! j + 1)])
       (j + 1)"

fun fillMatrix :: "string \<Rightarrow> string \<Rightarrow> nat list \<Rightarrow> nat \<Rightarrow> nat list" where
  \<comment> \<open>The outer loop over \<open>i\<close>, from the characters of \<open>b\<close> still to come and the row
      \<open>matrix[i - 1]\<close>; the result is the last row.\<close>
  "fillMatrix [] a prev i = prev"
| "fillMatrix (bc # bs) a prev i = fillMatrix bs a (fillRow bc a prev [i] 1) (i + 1)"

definition levenshteinDistance :: "string \<Rightarrow> string \<Rightarrow> nat" where
  "levenshteinDistance a b = fillMatrix b a [0 ..< length a + 1] 1 ! length a"

definition nameSimilarity :: "string \<Rightarrow> string \<Rightarrow> rat" where
  \<comment> \<open>The quotient and the difference are exact rational numbers here.  The code
      computes them in double precision, which rounds: a comparison with a threshold that
      the exact value just meets can go the other way (a distance of 9 over a length of 10
      against the threshold 0.1 is true here and false in the code).  Against the default
      threshold 0.85 the two comparisons agree for names of every practical length.\<close>
  "nameSimilarity name1 name2 =
     (let n1 = normalizeName name1;
          n2 = normalizeName name2
      in if n1 = n2 then 1
         else
           let maxLen = max (length n1) (length n2)
           in if maxLen = 0 then 1
              else 1 - of_nat (levenshteinDistance n1 n2) / of_nat maxLen)"

record FuzzyLead =
  name :: string
  city :: "string option"
  normalizedPhone :: "string option"

definition isFuzzyMatch :: "FuzzyLead \<Rightarrow> FuzzyLead \<Rightarrow> rat \<Rightarrow> bool" where
  "isFuzzyMatch lead1 lead2 threshold =
     (if truthy (normalizedPhone lead1) \<and> truthy (normalizedPhone lead2)
         \<and> normalizedPhone lead1 = normalizedPhone lead2
      then True
      else if truthy (city lead1) \<and> truthy (city lead2)
              \<and> toLowerCase (str_of (city lead1)) \<noteq> toLowerCase (str_of (city lead2))
      then False
      else
        let similarity = nameSimilarity (name lead1) (name lead2)
        in similarity \<ge> threshold)"

definition defaultThreshold :: rat where
  \<comment> \<open>The default value \<open>0.85\<close> of the parameter \<open>threshold\<close>.\<close>
  "defaultThreshold = 85 / 100"

definition isFuzzyMatch_stated :: "FuzzyLead \<Rightarrow> FuzzyLead \<Rightarrow> rat \<Rightarrow> bool" where
  \<comment> \<open>The decision list in the words of the specification, where a field counts as soon
      as it is not null.\<close>
  "isFuzzyMatch_stated lead1 lead2 threshold =
     (if normalizedPhone lead1 \<noteq> None \<and> normalizedPhone lead2 \<noteq> None
         \<and> normalizedPhone lead1 = normalizedPhone lead2
      then True
      else if city lead1 \<noteq> None \<and> city lead2 \<noteq> None
              \<and> toLowerCase (str_of (city lead1)) \<noteq> toLowerCase (str_of (city lead2))
      then False
      else nameSimilarity (name lead1) (name lead2) \<ge> threshold)"

definition blankPhoneLead :: "string \<Rightarrow> FuzzyLead" where
  \<comment> \<open>A lead without a city whose normalized phone is the empty string.\<close>
  "blankPhoneLead nm =
     \<lparr> FuzzyLead.name = nm, FuzzyLead.city = None, FuzzyLead.normalizedPhone = Some [] \<rparr>"

definition phoneLead :: "string \<Rightarrow> string \<Rightarrow> FuzzyLead" where
  \<comment> \<open>A lead of the given name and city with the phone \<open>+16195550001\<close>.\<close>
  "phoneLead nm c =
     \<lparr> FuzzyLead.name = nm, FuzzyLead.city = Some c,
       FuzzyLead.normalizedPhone = Some ''+16195550001'' \<rparr>"

definition hasHttpScheme :: "string \<Rightarrow> bool" where
  \<comment> \<open>The test \<open>/^https?:\/\//i\<close>.\<close>
  "hasHttpScheme s =
     (startsWith (toLowerCase s) ''http://'' \<or> startsWith (toLowerCase s) ''https://'')"

text \<open>
  The fallback pattern
  \<^verbatim>\<open>/(?:https?:\/\/)?(?:www\.)?([a-zA-Z0-9][-a-zA-Z0-9]*(?:\.[a-zA-Z0-9][-a-zA-Z0-9]*)+)/i\<close>
  is matched as the regular-expression engine does: at the leftmost position where it
  matches, the optional parts taken when the rest then matches, every repetition as long
  as possible.  A label is followed by a dot or by the end of the group, so no shorter
  repetition can make the group match where the longest one does not.
\<close>

function moreLabels :: "string \<Rightarrow> string" where
  \<comment> \<open>The repetition \<open>(?:\.[a-zA-Z0-9][-a-zA-Z0-9]*)*\<close> at the start of a string.\<close>
  "moreLabels s =
     (case s of
        d # c # cs \<Rightarrow>
          if d = CHR ''.'' \<and> isAlnum c
          then d # c # takeWhile isLabelChar cs @ moreLabels (dropWhile isLabelChar cs)
          else []
      | _ \<Rightarrow> [])"
  by pat_completeness auto
termination
proof (relation "measure length")
  show "wf (measure length)" by simp
next
  fix s :: string and d c cs x
  assume "s = d # x" and "x = c # cs"
  then show "(dropWhile isLabelChar cs, s) \<in> measure length"
    using length_dropWhile_le [of isLabelChar cs] by simp
qed

declare moreLabels.simps [simp del]

definition domainAt :: "string \<Rightarrow> string option" where
  \<comment> \<open>The capture group at the start of a string: two labels or more.\<close>
  "domainAt s =
     (case s of
        [] \<Rightarrow> None
      | c # cs \<Rightarrow>
          if isAlnum c
          then (let more = moreLabels (dropWhile isLabelChar cs)
                in if more = [] then None else Some (c # takeWhile isLabelChar cs @ more))
          else None)"

definition wwwThenDomain :: "string \<Rightarrow> string option" where
  \<comment> \<open>\<open>(?:www\.)?\<close> and the group: with the prefix first, then without it.\<close>
  "wwwThenDomain s =
     (if startsWith (toLowerCase s) ''www.''
      then (case domainAt (drop 4 s) of Some m \<Rightarrow> Some m | None \<Rightarrow> domainAt s)
      else domainAt s)"

definition schemeLength :: "string \<Rightarrow> nat option" where
  "schemeLength s =
     (if startsWith (toLowerCase s) ''https://'' then Some 8
      else if startsWith (toLowerCase s) ''http://'' then Some 7
      else None)"

definition matchAt :: "string \<Rightarrow> string option" where
  \<comment> \<open>The whole pattern at the start of a string; the result is the capture group.\<close>
  "matchAt s =
     (case schemeLength s of
        Some n \<Rightarrow>
          (case wwwThenDomain (drop n s) of Some m \<Rightarrow> Some m | None \<Rightarrow> wwwThenDomain s)
      | None \<Rightarrow> wwwThenDomain s)"

fun domainMatch :: "string \<Rightarrow> string option" where
  \<comment> \<open>\<open>url.match(pattern)[1]\<close>, with \<open>None\<close> when nothing matches.\<close>
  "domainMatch [] = matchAt []"
| "domainMatch (c # cs) =
     (case matchAt (c # cs) of Some m \<Rightarrow> Some m | None \<Rightarrow> domainMatch cs)"

definition normalizeDomain :: "(string \<Rightarrow> string option) \<Rightarrow> string option \<Rightarrow> string option" where
  \<comment> \<open>The first argument stands for the platform's URL parser: \<open>urlHostname s\<close> is
      \<open>new URL(s).hostname\<close>, and \<open>None\<close> when the constructor throws.\<close>
  "normalizeDomain urlHostname url =
     (case url of
        None \<Rightarrow> None
      | Some u \<Rightarrow>
          if u = [] \<or> trim u = [] then None
          else
            let cleanUrl = trim u;
                cleanUrl = (if \<not> hasHttpScheme cleanUrl then ''https://'' @ cleanUrl
                            else cleanUrl)
            in (case urlHostname cleanUrl of
                  Some parsed \<Rightarrow>
                    (let hostname = toLowerCase parsed;
                         hostname = (if startsWith hostname ''www.'' then drop 4 hostname
                                     else hostname)
                     in if hostname = [] \<or> hostname = ''localhost'' then None
                        else Some hostname)
                | None \<Rightarrow>
                    (case domainMatch u of
                       Some m \<Rightarrow> if m \<noteq> [] then Some (toLowerCase m) else None
                     | None \<Rightarrow> None)))"

section \<open>Storage of leads (shared/schema.ts, server/storage.ts)\<close>

text \<open>
  The table \<open>leads\<close> is the list of its rows, in the order in which a query returns them;
  a query is a \<open>filter\<close> of that list and \<open>limit n\<close> is \<open>take n\<close>.  What the platform
  decides is a parameter: the URL parser, and the operator \<open>ILIKE\<close> of the database
  (\<open>ilike p text pattern\<close>).  Timestamps are clock readings in milliseconds.
\<close>

datatype error = Error string

record platform =
  urlHostname :: "string \<Rightarrow> string option"
  ilike :: "string \<Rightarrow> string \<Rightarrow> bool"

record Lead =
  id :: string
  name :: string
  domain :: "string option"
  canonicalDomain :: "string option"
  normalizedPhone :: "string option"
  phone :: "string option"
  email :: "string option"
  address :: "string option"
  city :: "string option"
  state :: "string option"
  postalCode :: "string option"
  latitude :: "string option"
  longitude :: "string option"
  category :: string
  source :: string
  placeId :: "string option"
  status :: string
  createdAt :: nat
  updatedAt :: nat

record InsertLead =
  name :: string
  domain :: "string option"
  canonicalDomain :: "string option"
  normalizedPhone :: "string option"
  phone :: "string option"
  email :: "string option"
  address :: "string option"
  city :: "string option"
  state :: "string option"
  postalCode :: "string option"
  latitude :: "string option"
  longitude :: "string option"
  category :: string
  source :: string
  placeId :: "string option"
  status :: "string option"

record Criteria =
  placeId :: "string option"
  domain :: "string option"
  phone :: "string option"
  name :: "string option"
  city :: "string option"

record UpsertResult =
  lead :: Lead
  isNew :: bool
  wasUpdated :: bool

definition firstRow :: "'a list \<Rightarrow> 'a option" where
  \<comment> \<open>\<open>const [row] = await query\<close>: the first row, or \<open>undefined\<close>.\<close>
  "firstRow rows = (case rows of [] \<Rightarrow> None | r # _ \<Rightarrow> Some r)"

definition orUndefined :: "string option \<Rightarrow> string option" where
  \<comment> \<open>\<open>x || undefined\<close>\<close>
  "orUndefined v = (if truthy v then v else None)"

definition coalesce :: "'a option \<Rightarrow> 'a option \<Rightarrow> 'a option" where
  \<comment> \<open>\<open>a ?? b\<close>\<close>
  "coalesce a b = (case a of Some x \<Rightarrow> Some x | None \<Rightarrow> b)"

definition asFuzzy :: "Lead \<Rightarrow> FuzzyLead" where
  \<comment> \<open>\<open>{ name: candidate.name, city: candidate.city,
      normalizedPhone: candidate.normalizedPhone }\<close>\<close>
  "asFuzzy candidate =
     \<lparr> FuzzyLead.name = Lead.name candidate, FuzzyLead.city = Lead.city candidate,
       FuzzyLead.normalizedPhone = Lead.normalizedPhone candidate \<rparr>"

fun firstFuzzyMatch :: "FuzzyLead \<Rightarrow> Lead list \<Rightarrow> Lead option" where
  \<comment> \<open>\<open>for (const candidate of candidates) if (isFuzzyMatch(probe, ...)) return candidate\<close>\<close>
  "firstFuzzyMatch probe [] = None"
| "firstFuzzyMatch probe (candidate # rest) =
     (if isFuzzyMatch probe (asFuzzy candidate) defaultThreshold then Some candidate
      else firstFuzzyMatch probe rest)"

definition ilikeColumn :: "'a platform_scheme \<Rightarrow> string option \<Rightarrow> string \<Rightarrow> bool" where
  \<comment> \<open>\<open>ILIKE\<close> on a nullable column: a null never matches.\<close>
  "ilikeColumn pf col pat = (case col of None \<Rightarrow> False | Some text \<Rightarrow> ilike pf text pat)"

definition findExistingLead :: "'a platform_scheme \<Rightarrow> Lead list \<Rightarrow> Criteria \<Rightarrow> Lead option" where
  "findExistingLead pf leads criteria =
     (let canonicalDomain = normalizeDomain (urlHostname pf) (Criteria.domain criteria);
          normalizedPhone = normalizePhone (Criteria.phone criteria);
          probe = \<lparr> FuzzyLead.name = str_of (Criteria.name criteria),
                    FuzzyLead.city = Criteria.city criteria,
                    FuzzyLead.normalizedPhone = normalizedPhone \<rparr>;
          byPlaceId =
            (if truthy (Criteria.placeId criteria)
             then firstRow (take 1
                    (filter (\<lambda>l. Lead.placeId l = Criteria.placeId criteria) leads))
             else None)
      in case byPlaceId of
           Some found \<Rightarrow> Some found
         | None \<Rightarrow>
            (let byDomain =
                   (if truthy canonicalDomain
                    then firstRow (take 1
                           (filter (\<lambda>l. Lead.canonicalDomain l = canonicalDomain) leads))
                    else None)
             in (case byDomain of
                   Some found \<Rightarrow> Some found
                 | None \<Rightarrow>
                    (let byPhone =
                           (if truthy normalizedPhone \<and> truthy (Criteria.name criteria)
                            then firstFuzzyMatch probe (take 10
                                   (filter (\<lambda>l. Lead.normalizedPhone l = normalizedPhone)
                                      leads))
                            else None)
                     in (case byPhone of
                           Some found \<Rightarrow> Some found
                         | None \<Rightarrow>
                             if truthy (Criteria.name criteria)
                                \<and> truthy (Criteria.city criteria)
                             then
                               let namePattern = take 10 (str_of (Criteria.name criteria))
                               in firstFuzzyMatch probe (take 20
                                    (filter
                                      (\<lambda>l. ilikeColumn pf (Lead.city l)
                                              (''%'' @ str_of (Criteria.city criteria) @ ''%'')
                                           \<and> ilike pf (Lead.name l)
                                               (''%'' @ namePattern @ ''%''))
                                      leads))
                             else None)))))"

definition uniqueOk :: "Lead list \<Rightarrow> bool" where
  \<comment> \<open>The primary key and the two partial unique indexes of the table.\<close>
  "uniqueOk rows =
     (distinct (map Lead.id rows)
      \<and> distinct (List.map_filter Lead.placeId rows)
      \<and> distinct (List.map_filter Lead.canonicalDomain rows))"

definition duplicateKey :: error where
  "duplicateKey = Error ''duplicate key value violates unique constraint''"

definition mergeInto :: "InsertLead \<Rightarrow> string option \<Rightarrow> string option \<Rightarrow> Lead \<Rightarrow> nat \<Rightarrow> Lead \<Rightarrow> Lead" where
  \<comment> \<open>The \<open>set\<close> clause of the update, computed from the row \<open>existing\<close> and applied to a
      row of the table.\<close>
  "mergeInto insertLead canonical normalized existing now row =
     row \<lparr> Lead.name := InsertLead.name insertLead,
           Lead.domain := coalesce (InsertLead.domain insertLead) (Lead.domain existing),
           Lead.canonicalDomain := coalesce canonical (Lead.canonicalDomain existing),
           Lead.phone := coalesce (InsertLead.phone insertLead) (Lead.phone existing),
           Lead.normalizedPhone := coalesce normalized (Lead.normalizedPhone existing),
           Lead.email := coalesce (InsertLead.email insertLead) (Lead.email existing),
           Lead.address := coalesce (InsertLead.address insertLead) (Lead.address existing),
           Lead.city := coalesce (InsertLead.city insertLead) (Lead.city existing),
           Lead.state := coalesce (InsertLead.state insertLead) (Lead.state existing),
           Lead.latitude := coalesce (InsertLead.latitude insertLead) (Lead.latitude existing),
           Lead.longitude :=
             coalesce (InsertLead.longitude insertLead) (Lead.longitude existing),
           Lead.placeId := coalesce (InsertLead.placeId insertLead) (Lead.placeId existing),
           Lead.category := InsertLead.category insertLead,
           Lead.source := InsertLead.source insertLead,
           Lead.status :=
             (case InsertLead.status insertLead of Some s \<Rightarrow> s
              | None \<Rightarrow> Lead.status existing),
           Lead.updatedAt := now \<rparr>"

definition newRow :: "InsertLead \<Rightarrow> string option \<Rightarrow> string option \<Rightarrow> string \<Rightarrow> nat \<Rightarrow> Lead" where
  \<comment> \<open>The row that \<open>insert(leads).values(leadWithNormalized)\<close> creates: the defaults of
      the schema fill \<open>id\<close>, \<open>status\<close> and the two timestamps.\<close>
  "newRow insertLead canonical normalized newId now =
     \<lparr> Lead.id = newId,
       Lead.name = InsertLead.name insertLead,
       Lead.domain = InsertLead.domain insertLead,
       Lead.canonicalDomain = canonical,
       Lead.normalizedPhone = normalized,
       Lead.phone = InsertLead.phone insertLead,
       Lead.email = InsertLead.email insertLead,
       Lead.address = InsertLead.address insertLead,
       Lead.city = InsertLead.city insertLead,
       Lead.state = InsertLead.state insertLead,
       Lead.postalCode = InsertLead.postalCode insertLead,
       Lead.latitude = InsertLead.latitude insertLead,
       Lead.longitude = InsertLead.longitude insertLead,
       Lead.category = InsertLead.category insertLead,
       Lead.source = InsertLead.source insertLead,
       Lead.placeId = InsertLead.placeId insertLead,
       Lead.status = (case InsertLead.status insertLead of Some s \<Rightarrow> s | None \<Rightarrow> ''new''),
       Lead.createdAt = now,
       Lead.updatedAt = now \<rparr>"

definition criteriaOf :: "InsertLead \<Rightarrow> Criteria" where
  \<comment> \<open>The argument that \<open>upsertLead\<close> hands to \<open>findExistingLead\<close>.\<close>
  "criteriaOf insertLead =
     \<lparr> Criteria.placeId = orUndefined (InsertLead.placeId insertLead),
       Criteria.domain = orUndefined (InsertLead.domain insertLead),
       Criteria.phone = orUndefined (InsertLead.phone insertLead),
       Criteria.name = Some (InsertLead.name insertLead),
       Criteria.city = orUndefined (InsertLead.city insertLead) \<rparr>"

definition upsertLead ::
  "'a platform_scheme \<Rightarrow> Lead list \<Rightarrow> InsertLead \<Rightarrow> string \<Rightarrow> nat
     \<Rightarrow> error + (UpsertResult \<times> Lead list)" where
  \<comment> \<open>\<open>newId\<close> is the identifier that \<open>gen_random_uuid()\<close> draws for a new row and \<open>now\<close>
      the clock reading of this call.  The result carries the table after the call; a
      statement that breaks a unique index throws and leaves the table as it was.  An
      updated row keeps its place in the list, and a new row goes to its end: the database
      fixes no order for a query without \<open>ORDER BY\<close>, and may return an updated row at
      another place.\<close>
  "upsertLead pf leads insertLead newId now =
     (let canonicalDomain = normalizeDomain (urlHostname pf) (InsertLead.domain insertLead);
          normalizedPhone = normalizePhone (InsertLead.phone insertLead);
          existing = findExistingLead pf leads (criteriaOf insertLead)
      in case existing of
           Some existing \<Rightarrow>
             let leads' = map (\<lambda>row. if Lead.id row = Lead.id existing
                                      then mergeInto insertLead canonicalDomain normalizedPhone
                                             existing now row
                                      else row) leads
             in if \<not> uniqueOk leads' then Inl duplicateKey
                else (case firstRow (filter (\<lambda>row. Lead.id row = Lead.id existing) leads') of
                        Some updated \<Rightarrow>
                          Inr (\<lparr> lead = updated, isNew = False, wasUpdated = True \<rparr>, leads')
                      | None \<Rightarrow> Inl (Error ''TypeError''))
         | None \<Rightarrow>
             let created = newRow insertLead canonicalDomain normalizedPhone newId now;
                 leads' = leads @ [created]
             in if \<not> uniqueOk leads' then Inl duplicateKey
                else Inr (\<lparr> lead = created, isNew = True, wasUpdated = False \<rparr>, leads'))"

definition resolveInOrder ::
  "(string \<Rightarrow> string option) \<Rightarrow> (Lead \<Rightarrow> bool) \<Rightarrow> Lead list \<Rightarrow> Criteria \<Rightarrow> Lead option" where
  \<comment> \<open>Entity resolution in the words of the specification: four criteria in strict order,
      the first that yields a lead wins, otherwise none.  The test that criterion 4 puts
      on the city and the name of a stored lead is the argument \<open>cityAndName\<close>.\<close>
  "resolveInOrder parser cityAndName leads criteria =
     (let canonicalDomain = normalizeDomain parser (Criteria.domain criteria);
          normalizedPhone = normalizePhone (Criteria.phone criteria);
          probe = \<lparr> FuzzyLead.name = str_of (Criteria.name criteria),
                    FuzzyLead.city = Criteria.city criteria,
                    FuzzyLead.normalizedPhone = normalizedPhone \<rparr>;
          matches = (\<lambda>l. isFuzzyMatch probe (asFuzzy l) defaultThreshold);
          criteria1 =
            (if truthy (Criteria.placeId criteria)
             then List.find (\<lambda>l. Lead.placeId l = Criteria.placeId criteria) leads
             else None);
          criteria2 =
            (if truthy canonicalDomain
             then List.find (\<lambda>l. Lead.canonicalDomain l = canonicalDomain) leads
             else None);
          criteria3 =
            (if truthy normalizedPhone \<and> truthy (Criteria.name criteria)
             then List.find matches
                    (take 10 (filter (\<lambda>l. Lead.normalizedPhone l = normalizedPhone) leads))
             else None);
          criteria4 =
            (if truthy (Criteria.name criteria) \<and> truthy (Criteria.city criteria)
             then List.find matches (take 20 (filter cityAndName leads))
             else None)
      in case List.find (\<lambda>r. r \<noteq> None) [criteria1, criteria2, criteria3, criteria4] of
           Some found \<Rightarrow> found
         | None \<Rightarrow> None)"

definition cityIncludes :: "string \<Rightarrow> Lead \<Rightarrow> bool" where
  \<comment> \<open>A case-insensitive substring match on the city: the stored lead has a city, and it
      contains the candidate's city when both are put in lower case.\<close>
  "cityIncludes candidateCity l =
     (case Lead.city l of
        None \<Rightarrow> False
      | Some stored \<Rightarrow> includes_str (toLowerCase stored) (toLowerCase candidateCity))"

definition sharesNamePrefix :: "string \<Rightarrow> Lead \<Rightarrow> bool" where
  \<comment> \<open>A shared name prefix: the stored name begins with the first ten characters of the
      candidate's name (with all of it when it is shorter), whatever the case.\<close>
  "sharesNamePrefix candidateName l =
     startsWith (toLowerCase (Lead.name l)) (toLowerCase (take 10 candidateName))"

definition nameIncludes :: "string \<Rightarrow> Lead \<Rightarrow> bool" where
  \<comment> \<open>The stored name contains, anywhere, the first ten characters of the candidate's
      name, whatever the case.\<close>
  "nameIncludes candidateName l =
     includes_str (toLowerCase (Lead.name l)) (toLowerCase (take 10 candidateName))"

definition findExistingLead_stated ::
  "(string \<Rightarrow> string option) \<Rightarrow> Lead list \<Rightarrow> Criteria \<Rightarrow> Lead option" where
  \<comment> \<open>The resolution as stated: criterion 4 looks at the leads with a case-insensitive
      city substring match and a shared name prefix.\<close>
  "findExistingLead_stated parser leads criteria =
     resolveInOrder parser
       (\<lambda>l. cityIncludes (str_of (Criteria.city criteria)) l
            \<and> sharesNamePrefix (str_of (Criteria.name criteria)) l)
       leads criteria"

definition findExistingLead_amended ::
  "(string \<Rightarrow> string option) \<Rightarrow> Lead list \<Rightarrow> Criteria \<Rightarrow> Lead option" where
  \<comment> \<open>The resolution with the amended criterion 4: a case-insensitive city substring
      match, and a name that contains the first ten characters of the candidate's name.\<close>
  "findExistingLead_amended parser leads criteria =
     resolveInOrder parser
       (\<lambda>l. cityIncludes (str_of (Criteria.city criteria)) l
            \<and> nameIncludes (str_of (Criteria.name criteria)) l)
       leads criteria"

definition wildcardFree :: "string \<Rightarrow> bool" where
  \<comment> \<open>No character that a \<open>LIKE\<close> pattern reads as a wildcard or as its escape: no percent
      sign, no underscore, no backslash.\<close>
  "wildcardFree s = list_all (\<lambda>c. c \<noteq> CHR ''%'' \<and> c \<noteq> CHR ''_'' \<and> c \<noteq> CHR 0x5C) s"

section \<open>The platform: a URL parser for the closed examples, and the operator ILIKE\<close>

definition hostChar :: "char \<Rightarrow> bool" where
  \<comment> \<open>A letter, a hyphen or a dot.\<close>
  "hostChar c = ((isAlnum c \<and> \<not> isDigit c) \<or> c = CHR ''-'' \<or> c = CHR ''.'')"

definition isPlainHost :: "string \<Rightarrow> bool" where
  \<comment> \<open>Letters, hyphens and single dots, not empty and not starting with a dot, no
      Punycode marker: a host that the URL parser only puts in lower case.  (A host with
      a digit may be read as an IPv4 address.)\<close>
  "isPlainHost h =
     (h \<noteq> [] \<and> list_all hostChar h
      \<and> \<not> startsWith h ''.'' \<and> \<not> includes_str h ''..''
      \<and> \<not> includes_str (toLowerCase h) ''xn--'')"

definition plainHostname :: "string \<Rightarrow> string option" where
  \<comment> \<open>What \<open>new URL(s).hostname\<close> is on a plain URL: \<open>http://\<close> or \<open>https://\<close>, a plain
      host, then nothing or a path.  On any other string this stand-in reports a failure, which the platform's
      parser need not do; the closed examples below apply it to plain URLs only.\<close>
  "plainHostname s =
     (case schemeLength s of
        None \<Rightarrow> None
      | Some n \<Rightarrow>
          let host = takeWhile (\<lambda>c. c \<noteq> CHR ''/'') (drop n s)
          in if isPlainHost host then Some (toLowerCase host) else None)"

fun sqlLike :: "string \<Rightarrow> string \<Rightarrow> bool" where
  \<comment> \<open>\<open>text LIKE pattern\<close> of PostgreSQL, as \<open>sqlLike pattern text\<close>: a percent sign
      matches any run of characters, an underscore any one character, a backslash makes
      the character after it stand for itself.  (A pattern that ends in a lone backslash
      is an error of the database; the patterns of \<open>findExistingLead\<close> end in a percent
      sign.)\<close>
  "sqlLike [] t = (t = [])"
| "sqlLike (p # ps) [] = (p = CHR ''%'' \<and> sqlLike ps [])"
| "sqlLike (p # ps) (c # cs) =
     (if p = CHR ''%'' then sqlLike ps (c # cs) \<or> sqlLike (p # ps) cs
      else if p = CHR ''_'' then sqlLike ps cs
      else if p = CHR 0x5C
      then (case ps of [] \<Rightarrow> False | e # es \<Rightarrow> c = e \<and> sqlLike es cs)
      else p = c \<and> sqlLike ps cs)"

definition sqlIlike :: "string \<Rightarrow> string \<Rightarrow> bool" where
  \<comment> \<open>\<open>text ILIKE pattern\<close>: \<open>LIKE\<close> without regard to case.\<close>
  "sqlIlike text pat = sqlLike (toLowerCase pat) (toLowerCase text)"

definition plainPlatform :: platform where
  "plainPlatform = \<lparr> urlHostname = plainHostname, ilike = sqlIlike \<rparr>"

definition acmeCandidate :: InsertLead where
  \<comment> \<open>A candidate as the agent saves it: a name, a category and a place id.\<close>
  "acmeCandidate =
     \<lparr> InsertLead.name = ''Acme Dental'', InsertLead.domain = None,
       InsertLead.canonicalDomain = None, InsertLead.normalizedPhone = None,
       InsertLead.phone = None, InsertLead.email = None, InsertLead.address = None,
       InsertLead.city = None, InsertLead.state = None, InsertLead.postalCode = None,
       InsertLead.latitude = None, InsertLead.longitude = None,
       InsertLead.category = ''dentist'', InsertLead.source = ''google_places'',
       InsertLead.placeId = Some ''place-1'', InsertLead.status = Some ''qualified'' \<rparr>"

definition acmeRow :: Lead where
  \<comment> \<open>The row that the first upsert of \<open>acmeCandidate\<close> creates under the identifier
      \<open>id-1\<close> at the clock reading 1000.\<close>
  "acmeRow =
     \<lparr> Lead.id = ''id-1'', Lead.name = ''Acme Dental'', Lead.domain = None,
       Lead.canonicalDomain = None, Lead.normalizedPhone = None, Lead.phone = None,
       Lead.email = None, Lead.address = None, Lead.city = None, Lead.state = None,
       Lead.postalCode = None, Lead.latitude = None, Lead.longitude = None,
       Lead.category = ''dentist'', Lead.source = ''google_places'',
       Lead.placeId = Some ''place-1'', Lead.status = ''qualified'',
       Lead.createdAt = 1000, Lead.updatedAt = 1000 \<rparr>"

definition brightRow :: Lead where
  \<comment> \<open>A stored lead of San Diego, without place id, domain or phone.\<close>
  "brightRow =
     \<lparr> Lead.id = ''id-7'', Lead.name = ''A Bright Smile Dental Care Center'',
       Lead.domain = None, Lead.canonicalDomain = None, Lead.normalizedPhone = None,
       Lead.phone = None, Lead.email = None, Lead.address = None,
       Lead.city = Some ''San Diego'', Lead.state = None, Lead.postalCode = None,
       Lead.latitude = None, Lead.longitude = None, Lead.category = ''dentist'',
       Lead.source = ''google_places'', Lead.placeId = None, Lead.status = ''new'',
       Lead.createdAt = 1000, Lead.updatedAt = 1000 \<rparr>"

definition brightCriteria :: Criteria where
  \<comment> \<open>A candidate of San Diego that has a name and a city only; its name is the stored
      one without the leading article.\<close>
  "brightCriteria =
     \<lparr> Criteria.placeId = None, Criteria.domain = None, Criteria.phone = None,
       Criteria.name = Some ''Bright Smile Dental Care Center'',
       Criteria.city = Some ''San Diego'' \<rparr>"

definition underscoreCriteria :: Criteria where
  \<comment> \<open>The candidate \<open>brightCriteria\<close> under the stored name, an underscore in the place
      of its second space.\<close>
  "underscoreCriteria =
     brightCriteria \<lparr> Criteria.name := Some ''A Bright_Smile Dental Care Center'' \<rparr>"

definition namelessCandidate :: InsertLead where
  \<comment> \<open>A candidate that carries a name and nothing to identify it by.\<close>
  "namelessCandidate = acmeCandidate \<lparr> InsertLead.placeId := None \<rparr>"

section \<open>The agent's tools that reach the network (server/agent/tools.ts)\<close>

text \<open>
  What the network answers is a parameter, gathered in the record \<open>world\<close>: the response
  of the places search and of the details lookup (or the error with which \<open>fetch\<close>
  rejects), the outcome of fetching and analysing a site, the identifier drawn for a new
  row and the reading of the clock.  Numbers that are only carried to storage (ratings,
  coordinates) are kept in their decimal text.
\<close>

record PlaceResult =
  placeId :: "string option"
  name :: string
  address :: "string option"
  phone :: "string option"
  website :: "string option"
  rating :: "string option"
  reviewCount :: "int option"
  category :: string
  latitude :: "string option"
  longitude :: "string option"

record RawPlace =
  place_id :: "string option"
  name :: string
  formatted_address :: "string option"
  rating :: "string option"
  user_ratings_total :: "int option"
  types :: "string list option"
  lat :: "string option"
  lng :: "string option"

record SearchResponse =
  ok :: bool
  statusText :: string
  status :: string
  error_message :: "string option"
  results :: "RawPlace list option"

record DetailsResponse =
  ok :: bool
  formatted_phone_number :: "string option"
  website :: "string option"

datatype fetchOutcome =
    Analysed AuditResult
  | Threw string string

record world = platform +
  placesFetch :: "string \<Rightarrow> string \<Rightarrow> string \<Rightarrow> error + SearchResponse"
  detailsFetch :: "string \<Rightarrow> string \<Rightarrow> error + DetailsResponse"
  siteFetch :: "string \<Rightarrow> fetchOutcome"
  uuid :: "nat \<Rightarrow> string"
  clock :: "nat \<Rightarrow> nat"

definition digitChar :: "nat \<Rightarrow> char" where
  "digitChar d = ''0123456789'' ! d"

function showNat :: "nat \<Rightarrow> string" where
  "showNat n = (if n < 10 then [digitChar n] else showNat (n div 10) @ [digitChar (n mod 10)])"
  by pat_completeness auto
termination
  by (relation "measure (\<lambda>n. n)") auto

declare showNat.simps [simp del]

definition showInt :: "int \<Rightarrow> string" where
  \<comment> \<open>How a template literal renders an integer.\<close>
  "showInt i = (if i < 0 then ''-'' @ showNat (nat (- i)) else showNat (nat i))"

definition toPlaceResult :: "RawPlace \<Rightarrow> PlaceResult" where
  "toPlaceResult place =
     \<lparr> PlaceResult.placeId = place_id place,
       PlaceResult.name = RawPlace.name place,
       PlaceResult.address = formatted_address place,
       PlaceResult.phone = None,
       PlaceResult.website = None,
       PlaceResult.rating = RawPlace.rating place,
       PlaceResult.reviewCount = user_ratings_total place,
       PlaceResult.category =
         (case types place of
            Some (t # _) \<Rightarrow> if t \<noteq> [] then t else ''business''
          | _ \<Rightarrow> ''business''),
       PlaceResult.latitude = lat place,
       PlaceResult.longitude = lng place \<rparr>"

definition invalidKeyMessage :: string where
  "invalidKeyMessage =
     ''Invalid or missing Google Places API key. Please configure it in Settings.''"

definition searchPlaces ::
  "'a world_scheme \<Rightarrow> string \<Rightarrow> string \<Rightarrow> string \<Rightarrow> int \<Rightarrow> error + PlaceResult list" where
  "searchPlaces w query location apiKey radius =
     (if apiKey = [] \<or> length apiKey < 10 then Inl (Error invalidKeyMessage)
      else
        case placesFetch w (query @ '' in '' @ location) (showInt radius) apiKey of
          Inl e \<Rightarrow> Inl e
        | Inr response \<Rightarrow>
            if \<not> SearchResponse.ok response
            then Inl (Error (''Google Places API error: '' @ statusText response))
            else if SearchResponse.status response = ''REQUEST_DENIED''
            then Inl (Error (''Google Places API REQUEST_DENIED: ''
                   @ (if truthy (error_message response) then str_of (error_message response)
                      else ''No additional details provided'')
                   @ ''. Make sure the Places API is enabled in your Google Cloud Console and billing is set up.''))
            else if SearchResponse.status response = ''INVALID_REQUEST''
            then Inl (Error
                   ''Invalid request to Google Places API. Check your query parameters.'')
            else if SearchResponse.status response \<noteq> ''OK''
                    \<and> SearchResponse.status response \<noteq> ''ZERO_RESULTS''
            then Inl (Error (''Google Places API error: '' @ SearchResponse.status response
                   @ '' - ''
                   @ (if truthy (error_message response) then str_of (error_message response)
                      else ''Unknown error'')))
            else
              (case results response of
                 None \<Rightarrow> Inr []
               | Some rs \<Rightarrow> Inr (map toPlaceResult rs)))"

definition withDetails :: "'a world_scheme \<Rightarrow> string \<Rightarrow> PlaceResult \<Rightarrow> PlaceResult" where
  \<comment> \<open>One element of the \<open>map\<close> over the first places: \<open>{ ...place, ...details }\<close>, and the
      place itself when the lookup throws.\<close>
  "withDetails w apiKey place =
     (case detailsFetch w (str_of (PlaceResult.placeId place)) apiKey of
        Inl e \<Rightarrow> place
      | Inr response \<Rightarrow>
          if \<not> DetailsResponse.ok response then place
          else place \<lparr> PlaceResult.phone := formatted_phone_number response,
                       PlaceResult.website := DetailsResponse.website response \<rparr>)"

definition auditSite :: "'a world_scheme \<Rightarrow> string \<Rightarrow> AuditResult" where
  \<comment> \<open>The analysis of the fetched page is the world's; the \<open>catch\<close> is the code's.\<close>
  "auditSite w url =
     (case siteFetch w url of
        Analysed r \<Rightarrow> r
      | Threw errName errMessage \<Rightarrow>
          defaultAudit
            (if errName = ''AbortError'' then ''timeout''
             else if includes_str errMessage ''Timeout'' then ''timeout''
             else ''error''))"

section \<open>The mission (server/agent/loop.ts)\<close>

record AgentConfig =
  provider :: string
  llmApiKey :: string
  placesApiKey :: string
  strictScoring :: "bool option"

record MissionGoal =
  query :: string
  location :: string
  maxLeads :: "int option"
  minScore :: "int option"

record SavedLead =
  id :: string
  name :: string
  score :: int
  status :: string

record AgentResult =
  leadsConsidered :: int
  leadsSaved :: int
  qualifiedCount :: int
  junkCount :: int
  topLeads :: "SavedLead list"
  completed :: bool
  message :: "string option"

record MissionEvent =
  missionId :: string
  eventType :: string
  toolName :: "string option"
  message :: string

record LeadMetrics =
  leadId :: string
  httpsOk :: "bool option"
  mobileOk :: "bool option"
  hasBooking :: "bool option"
  schemaOk :: "bool option"
  cmsHint :: "string option"
  lcpMs :: "int option"
  cls :: "string option"
  analyticsPixels :: "string list option"
  rating :: "string option"
  reviewCount :: "int option"

record Score =
  leadId :: string
  need :: int
  "value" :: int
  reachability :: int
  total :: int
  reasons :: "string list"

text \<open>
  One run of a mission threads the record \<open>Run\<close>: the four tables that the mission writes
  and the private fields of the \<open>Agent\<close> object.  A table is the list of its rows; the
  columns that the database fills by itself in the tables of metrics, scores and events
  are left out.
\<close>

record Run =
  leads :: "Lead list"
  leadMetricsTable :: "LeadMetrics list"
  scoresTable :: "Score list"
  missionEvents :: "MissionEvent list"
  savedLeads :: "SavedLead list"
  processedPlaceIds :: "string set"
  processedDomains :: "string set"
  processedPhones :: "string set"
  skippedDuplicates :: nat
  updatedLeads :: nat

definition logEvent :: "string \<Rightarrow> string \<Rightarrow> string \<Rightarrow> string option \<Rightarrow> Run \<Rightarrow> Run" where
  \<comment> \<open>\<open>this.logEvent(type, message, toolName)\<close> of the agent of mission \<open>mid\<close>.\<close>
  "logEvent mid type msg tool st =
     st \<lparr> missionEvents := missionEvents st
            @ [\<lparr> missionId = mid, eventType = type, toolName = tool,
                 MissionEvent.message = msg \<rparr>] \<rparr>"

definition addTruthy :: "string option \<Rightarrow> string set \<Rightarrow> string set" where
  \<comment> \<open>\<open>if (x) set.add(x)\<close>\<close>
  "addTruthy v s = (if truthy v then insert (str_of v) s else s)"

definition upsertLeadMetrics :: "LeadMetrics list \<Rightarrow> LeadMetrics \<Rightarrow> LeadMetrics list" where
  "upsertLeadMetrics rows m =
     (case firstRow (take 1 (filter (\<lambda>r. LeadMetrics.leadId r = LeadMetrics.leadId m) rows)) of
        Some existing \<Rightarrow>
          map (\<lambda>r. if LeadMetrics.leadId r = LeadMetrics.leadId m
                    then r \<lparr> LeadMetrics.httpsOk :=
                               coalesce (LeadMetrics.httpsOk m) (LeadMetrics.httpsOk existing),
                             LeadMetrics.mobileOk :=
                               coalesce (LeadMetrics.mobileOk m) (LeadMetrics.mobileOk existing),
                             LeadMetrics.schemaOk :=
                               coalesce (LeadMetrics.schemaOk m) (LeadMetrics.schemaOk existing),
                             LeadMetrics.hasBooking :=
                               coalesce (LeadMetrics.hasBooking m)
                                 (LeadMetrics.hasBooking existing),
                             LeadMetrics.lcpMs :=
                               coalesce (LeadMetrics.lcpMs m) (LeadMetrics.lcpMs existing),
                             LeadMetrics.cls :=
                               coalesce (LeadMetrics.cls m) (LeadMetrics.cls existing),
                             LeadMetrics.analyticsPixels :=
                               coalesce (LeadMetrics.analyticsPixels m)
                                 (LeadMetrics.analyticsPixels existing),
                             LeadMetrics.rating :=
                               coalesce (LeadMetrics.rating m) (LeadMetrics.rating existing),
                             LeadMetrics.reviewCount :=
                               coalesce (LeadMetrics.reviewCount m)
                                 (LeadMetrics.reviewCount existing),
                             LeadMetrics.cmsHint :=
                               coalesce (LeadMetrics.cmsHint m) (LeadMetrics.cmsHint existing) \<rparr>
                    else r) rows
      | None \<Rightarrow> rows @ [m])"

definition upsertScore :: "Score list \<Rightarrow> Score \<Rightarrow> Score list" where
  "upsertScore rows sc =
     (case firstRow (take 1 (filter (\<lambda>r. Score.leadId r = Score.leadId sc) rows)) of
        Some existing \<Rightarrow>
          map (\<lambda>r. if Score.leadId r = Score.leadId sc then sc else r) rows
      | None \<Rightarrow> rows @ [sc])"

definition saveLead ::
  "'a world_scheme \<Rightarrow> PlaceResult \<Rightarrow> AuditResult \<Rightarrow> ScoreResult \<Rightarrow> string \<Rightarrow> Run
     \<Rightarrow> Run \<times> (error + string \<times> bool)" where
  \<comment> \<open>\<open>this.saveLead({...})\<close> as \<open>executeMission\<close> calls it, with the fields of the place.
      The result is the lead's id and \<open>isNew\<close>.\<close>
  "saveLead w place auditResults scoreArg statusArg st =
     (let leadData =
            \<lparr> InsertLead.name = PlaceResult.name place,
              InsertLead.domain = PlaceResult.website place,
              InsertLead.canonicalDomain = None,
              InsertLead.normalizedPhone = None,
              InsertLead.phone = PlaceResult.phone place,
              InsertLead.email = None,
              InsertLead.address = PlaceResult.address place,
              InsertLead.city = None,
              InsertLead.state = None,
              InsertLead.postalCode = None,
              InsertLead.latitude = PlaceResult.latitude place,
              InsertLead.longitude = PlaceResult.longitude place,
              InsertLead.category = PlaceResult.category place,
              InsertLead.source = ''google_places'',
              InsertLead.placeId = PlaceResult.placeId place,
              InsertLead.status =
                Some (if statusArg \<noteq> [] then statusArg
                      else if ScoreResult.total scoreArg \<ge> 75 then ''qualified'' else ''new'') \<rparr>
      in case upsertLead w (leads st) leadData (uuid w (length (leads st)))
                (clock w (length (missionEvents st))) of
           Inl e \<Rightarrow> (st, Inl e)
         | Inr (res, leads') \<Rightarrow>
             let saved = lead res;
                 st = st \<lparr> leads := leads' \<rparr>;
                 st = st \<lparr> processedPlaceIds :=
                             addTruthy (Lead.placeId saved) (processedPlaceIds st) \<rparr>;
                 st = st \<lparr> processedDomains :=
                             addTruthy (Lead.canonicalDomain saved) (processedDomains st) \<rparr>;
                 st = st \<lparr> processedPhones :=
                             addTruthy (Lead.normalizedPhone saved) (processedPhones st) \<rparr>;
                 st = (if wasUpdated res then st \<lparr> updatedLeads := updatedLeads st + 1 \<rparr>
                       else st);
                 metricsData =
                   \<lparr> LeadMetrics.leadId = Lead.id saved,
                     LeadMetrics.httpsOk = Some (AuditResult.httpsOk auditResults),
                     LeadMetrics.mobileOk = Some (AuditResult.mobileOk auditResults),
                     LeadMetrics.hasBooking = Some (AuditResult.hasBooking auditResults),
                     LeadMetrics.schemaOk = Some (AuditResult.schemaOk auditResults),
                     LeadMetrics.cmsHint = AuditResult.cmsHint auditResults,
                     LeadMetrics.lcpMs = AuditResult.lcpMs auditResults,
                     LeadMetrics.cls =
                       (case AuditResult.cls auditResults of
                          Some c \<Rightarrow> if c \<noteq> 0 then Some (showInt c) else None
                        | None \<Rightarrow> None),
                     LeadMetrics.analyticsPixels = AuditResult.analyticsPixels auditResults,
                     LeadMetrics.rating = PlaceResult.rating place,
                     LeadMetrics.reviewCount = PlaceResult.reviewCount place \<rparr>;
                 st = st \<lparr> leadMetricsTable := upsertLeadMetrics (leadMetricsTable st) metricsData \<rparr>;
                 scoreData =
                   \<lparr> Score.leadId = Lead.id saved,
                     Score.need = ScoreResult.need scoreArg,
                     Score.value = ScoreResult.value scoreArg,
                     Score.reachability = ScoreResult.reachability scoreArg,
                     Score.total = ScoreResult.total scoreArg,
                     Score.reasons = ScoreResult.reasons scoreArg \<rparr>;
                 st = st \<lparr> scoresTable := upsertScore (scoresTable st) scoreData \<rparr>
             in (st, Inr (Lead.id saved, isNew res)))"

definition bullet :: string where
  \<comment> \<open>The bullet character of the messages, in its UTF-8 bytes.\<close>
  "bullet = [char_of (226 :: nat), char_of (128 :: nat), char_of (162 :: nat)]"

fun joinWith :: "string \<Rightarrow> string list \<Rightarrow> string" where
  "joinWith sep [] = []"
| "joinWith sep [x] = x"
| "joinWith sep (x # y # ys) = x @ sep @ joinWith sep (y # ys)"

definition logAudit :: "string \<Rightarrow> AuditResult \<Rightarrow> Run \<Rightarrow> Run" where
  \<comment> \<open>The events after a returned audit.\<close>
  "logAudit mid auditResults st =
     (if AuditResult.cmsHint auditResults = Some ''timeout''
      then logEvent mid ''warning'' ''Website audit timed out - site may be slow'' None st
      else if AuditResult.cmsHint auditResults = Some ''error''
      then logEvent mid ''warning'' ''Website audit failed - site may be unreachable'' None st
      else
        let issues =
              (if \<not> AuditResult.httpsOk auditResults then [''No HTTPS''] else [])
              @ (if \<not> AuditResult.mobileOk auditResults then [''Not mobile-friendly''] else [])
              @ (if \<not> AuditResult.hasBooking auditResults then [''No booking system''] else [])
              @ (if \<not> AuditResult.schemaOk auditResults then [''Missing SEO schema''] else [])
        in if issues \<noteq> []
           then logEvent mid ''info'' (''Issues found: '' @ joinWith '', '' issues) None st
           else logEvent mid ''info'' ''Website looks well-optimized'' None st)"

definition processPlace ::
  "'a world_scheme \<Rightarrow> string \<Rightarrow> int \<Rightarrow> PlaceResult \<Rightarrow> int \<Rightarrow> Run \<Rightarrow> Run \<times> (error + int)" where
  \<comment> \<open>The body of the loop over the places, after the test of the target: the result is
      the new value of \<open>qualifiedCount\<close>, or the error that a save throws.  \<open>auditSite\<close>
      catches whatever its fetch throws, so the \<open>catch\<close> around its call is never
      entered.\<close>
  "processPlace w mid minScoreArg place qualified st =
     (let placeDomain = normalizeDomain (urlHostname w) (PlaceResult.website place);
          placePhone = normalizePhone (PlaceResult.phone place)
      in if truthy (PlaceResult.placeId place)
            \<and> str_of (PlaceResult.placeId place) \<in> processedPlaceIds st
         then (st \<lparr> skippedDuplicates := skippedDuplicates st + 1 \<rparr>, Inr qualified)
         else if truthy placeDomain \<and> str_of placeDomain \<in> processedDomains st
         then (st \<lparr> skippedDuplicates := skippedDuplicates st + 1 \<rparr>, Inr qualified)
         else if truthy placePhone \<and> str_of placePhone \<in> processedPhones st
         then (st \<lparr> skippedDuplicates := skippedDuplicates st + 1 \<rparr>, Inr qualified)
         else
           let st = logEvent mid ''info'' (''Analyzing: '' @ PlaceResult.name place) None st;
               (auditResults, st) =
                 (if truthy (PlaceResult.website place)
                  then
                    let st = logEvent mid ''tool''
                               (''Auditing website: '' @ str_of (PlaceResult.website place))
                               (Some ''audit_site'') st;
                        auditResults = auditSite w (str_of (PlaceResult.website place))
                    in (auditResults, logAudit mid auditResults st)
                  else
                    (defaultAudit ''none'',
                     logEvent mid ''warning''
                       (PlaceResult.name place @ '' has no website - using default audit'')
                       None st));
               contactInfo =
                 \<lparr> ContactInfo.phone = PlaceResult.phone place,
                   ContactInfo.email = None,
                   ContactInfo.website = PlaceResult.website place \<rparr>;
               score = scoreLead (PlaceResult.name place) auditResults contactInfo
                         (PlaceResult.category place);
               isQualified = (ScoreResult.total score \<ge> 75);
               meetsThreshold = (minScoreArg = 0 \<or> ScoreResult.total score \<ge> minScoreArg)
           in if meetsThreshold
              then
                let status = (if isQualified then ''qualified'' else ''junk'');
                    st = logEvent mid (if isQualified then ''success'' else ''info'')
                           ((if isQualified then ''QUALIFIED'' else ''SAVED (low score)'')
                            @ '': '' @ PlaceResult.name place @ '' - Score: ''
                            @ showInt (ScoreResult.total score) @ ''/100'') None st;
                    st = logEvent mid ''info''
                           (''  Need: '' @ showInt (ScoreResult.need score)
                            @ '' | Value: '' @ showInt (ScoreResult.value score)
                            @ '' | Reachability: ''
                            @ showInt (ScoreResult.reachability score)) None st;
                    st = foldl (\<lambda>acc reason.
                                  logEvent mid ''info'' (''  '' @ bullet @ '' '' @ reason) None acc)
                           st (take 3 (ScoreResult.reasons score))
                in case saveLead w place auditResults score status st of
                     (st, Inl e) \<Rightarrow> (st, Inl e)
                   | (st, Inr (savedId, new)) \<Rightarrow>
                       let st = (if \<not> new
                                 then logEvent mid ''info'' ''  (Updated existing lead)'' None st
                                 else st);
                           st = st \<lparr> savedLeads := savedLeads st
                                       @ [\<lparr> SavedLead.id = savedId,
                                            SavedLead.name = PlaceResult.name place,
                                            SavedLead.score = ScoreResult.total score,
                                            SavedLead.status = status \<rparr>] \<rparr>
                       in (st, Inr (if isQualified then qualified + 1 else qualified))
              else
                (logEvent mid ''info''
                   (''Skipped: '' @ PlaceResult.name place @ '' - Score ''
                    @ showInt (ScoreResult.total score) @ '' below threshold ''
                    @ showInt minScoreArg) None st,
                 Inr qualified))"

fun mainLoop ::
  "'a world_scheme \<Rightarrow> string \<Rightarrow> int \<Rightarrow> int \<Rightarrow> PlaceResult list \<Rightarrow> int \<Rightarrow> Run
     \<Rightarrow> Run \<times> (error + int)" where
  \<comment> \<open>\<open>for (const place of placesWithDetails)\<close>, with \<open>qualifiedCount\<close> as an argument.\<close>
  "mainLoop w mid maxLeadsArg minScoreArg [] qualified st = (st, Inr qualified)"
| "mainLoop w mid maxLeadsArg minScoreArg (place # rest) qualified st =
     (if qualified \<ge> maxLeadsArg
      then (logEvent mid ''success''
              (''Reached target of '' @ showInt maxLeadsArg @ '' qualified leads!'') None st,
            Inr qualified)
      else
        case processPlace w mid minScoreArg place qualified st of
          (st, Inl e) \<Rightarrow> (st, Inl e)
        | (st, Inr qualified) \<Rightarrow> mainLoop w mid maxLeadsArg minScoreArg rest qualified st)"

definition getLeadsByPlaceIds :: "Lead list \<Rightarrow> string list \<Rightarrow> Lead list" where
  "getLeadsByPlaceIds rows placeIds =
     (if placeIds = [] then []
      else filter (\<lambda>l. case Lead.placeId l of None \<Rightarrow> False | Some p \<Rightarrow> p \<in> set placeIds)
             rows)"

definition inColumn :: "string option \<Rightarrow> string list \<Rightarrow> bool" where
  \<comment> \<open>\<open>inArray(column, values)\<close>: a null is in no list.\<close>
  "inColumn col vals = (case col of None \<Rightarrow> False | Some v \<Rightarrow> v \<in> set vals)"

definition getLeadsByDomainsOrPhones :: "Lead list \<Rightarrow> string list \<Rightarrow> string list \<Rightarrow> Lead list" where
  "getLeadsByDomainsOrPhones rows domains phones =
     (if domains = [] \<and> phones = [] then []
      else if domains \<noteq> [] \<and> phones \<noteq> []
      then filter (\<lambda>l. inColumn (Lead.canonicalDomain l) domains
                         \<or> inColumn (Lead.normalizedPhone l) phones) rows
      else if domains \<noteq> []
      then filter (\<lambda>l. inColumn (Lead.canonicalDomain l) domains) rows
      else filter (\<lambda>l. inColumn (Lead.normalizedPhone l) phones) rows)"

fun addUnseen :: "Lead list \<Rightarrow> Lead list \<Rightarrow> Lead list" where
  \<comment> \<open>The loop that appends the leads whose id is not in \<open>seenIds\<close>; the ids seen are
      those of the leads gathered so far.\<close>
  "addUnseen acc [] = acc"
| "addUnseen acc (l # ls) =
     (if Lead.id l \<notin> set (map Lead.id acc) then addUnseen (acc @ [l]) ls
      else addUnseen acc ls)"

definition markProcessed :: "Lead \<Rightarrow> Run \<Rightarrow> Run" where
  "markProcessed l st =
     st \<lparr> processedPlaceIds := addTruthy (Lead.placeId l) (processedPlaceIds st),
          processedDomains := addTruthy (Lead.canonicalDomain l) (processedDomains st),
          processedPhones := addTruthy (Lead.normalizedPhone l) (processedPhones st) \<rparr>"

definition createResult :: "Run \<Rightarrow> int \<Rightarrow> string \<Rightarrow> AgentResult" where
  "createResult st considered msg =
     (let qualifiedLeads = filter (\<lambda>l. SavedLead.status l = ''qualified'') (savedLeads st);
          junkLeads = filter (\<lambda>l. SavedLead.status l = ''junk'') (savedLeads st)
      in \<lparr> leadsConsidered = considered,
           leadsSaved = int (length (savedLeads st)),
           qualifiedCount = int (length qualifiedLeads),
           junkCount = int (length junkLeads),
           topLeads = take 5 qualifiedLeads,
           completed = True,
           AgentResult.message = Some msg \<rparr>)"

definition logLeadList :: "string \<Rightarrow> SavedLead list \<Rightarrow> Run \<Rightarrow> Run" where
  \<comment> \<open>One event for each lead of a short list of the summary.\<close>
  "logLeadList mid ls st =
     foldl (\<lambda>acc l. logEvent mid ''info''
                       (''  '' @ bullet @ '' '' @ SavedLead.name l @ '' (Score: ''
                        @ showInt (SavedLead.score l) @ '')'') None acc)
       st ls"

definition summarize :: "string \<Rightarrow> int \<Rightarrow> int \<Rightarrow> int \<Rightarrow> Run \<Rightarrow> Run \<times> AgentResult" where
  \<comment> \<open>The end of a mission whose loop has returned: the summary message, its events and
      the result.\<close>
  "summarize mid minScoreArg considered qualified st =
     (let junk = int (length (savedLeads st)) - qualified;
          dedupeInfo = (if updatedLeads st > 0
                        then '', '' @ showInt (int (updatedLeads st)) @ '' updated'' else []);
          skipInfo = (if skippedDuplicates st > 0
                      then '' ('' @ showInt (int (skippedDuplicates st))
                           @ '' duplicates skipped)'' else []);
          summaryMsg =
            (if savedLeads st = []
             then (if minScoreArg > 0
                   then ''Mission complete. No leads met the qualification threshold of ''
                        @ showInt minScoreArg @ ''.'' @ skipInfo
                   else ''Mission complete. No businesses found to save.'' @ skipInfo)
             else if minScoreArg = 0
             then ''Mission complete! Saved '' @ showInt (int (length (savedLeads st)))
                  @ '' leads ('' @ showInt qualified @ '' qualified, '' @ showInt junk
                  @ '' low-score'' @ dedupeInfo @ '').'' @ skipInfo
             else ''Mission complete! Found '' @ showInt qualified @ '' qualified leads''
                  @ dedupeInfo @ ''.'' @ skipInfo);
          st = logEvent mid ''success'' summaryMsg None st;
          qualifiedLeads = filter (\<lambda>l. SavedLead.score l \<ge> 75) (savedLeads st);
          junkLeads = filter (\<lambda>l. SavedLead.score l < 75) (savedLeads st);
          st = (if savedLeads st \<noteq> [] \<and> qualifiedLeads \<noteq> []
                then logLeadList mid (take 5 qualifiedLeads)
                       (logEvent mid ''info'' ''Qualified leads:'' None st)
                else st);
          st = (if savedLeads st \<noteq> [] \<and> junkLeads \<noteq> [] \<and> minScoreArg = 0
                then logLeadList mid (take 3 junkLeads)
                       (logEvent mid ''info'' ''Low-score leads (for review):'' None st)
                else st)
      in (st, createResult st considered summaryMsg))"

definition missionBody ::
  "'a world_scheme \<Rightarrow> AgentConfig \<Rightarrow> string \<Rightarrow> MissionGoal \<Rightarrow> int \<Rightarrow> int \<Rightarrow> Run
     \<Rightarrow> Run \<times> (error + AgentResult)" where
  \<comment> \<open>The \<open>try\<close> block of \<open>executeMission\<close>.\<close>
  "missionBody w config mid goal minScoreArg maxLeadsArg st =
     (let st = logEvent mid ''tool'' ''Searching for businesses...'' (Some ''search_places'') st
      in case searchPlaces w (query goal) (location goal) (placesApiKey config) 5000 of
           Inl e \<Rightarrow> (st, Inl e)
         | Inr places \<Rightarrow>
             if places = []
             then
               (let st = logEvent mid ''warning''
                           ''No businesses found matching your criteria'' None st
                in (st, Inr (createResult st 0 ''No businesses found'')))
             else
               (let st = logEvent mid ''success''
                           (''Found '' @ showInt (int (length places))
                            @ '' potential businesses'') None st;
                    placesWithDetails =
                      map (withDetails w (placesApiKey config)) (take 15 places);
                    st = logEvent mid ''info''
                           (''Retrieved contact details for ''
                            @ showInt (int (length placesWithDetails)) @ '' businesses'')
                           None st;
                    placeIds = map str_of
                      (filter truthy (map PlaceResult.placeId placesWithDetails));
                    domains = List.map_filter
                      (\<lambda>p. normalizeDomain (urlHostname w) (PlaceResult.website p))
                      placesWithDetails;
                    phones = List.map_filter (\<lambda>p. normalizePhone (PlaceResult.phone p))
                      placesWithDetails;
                    existingByPlaceId = getLeadsByPlaceIds (leads st) placeIds;
                    existingByDomainOrPhone =
                      getLeadsByDomainsOrPhones (leads st) domains phones;
                    allExistingLeads = addUnseen existingByPlaceId existingByDomainOrPhone;
                    st = foldl (\<lambda>acc l. markProcessed l acc) st allExistingLeads;
                    st = (if allExistingLeads \<noteq> []
                          then logEvent mid ''info''
                                 (''Found '' @ showInt (int (length allExistingLeads))
                                  @ '' leads already in database - will skip duplicates'')
                                 None st
                          else st)
                in case mainLoop w mid maxLeadsArg minScoreArg placesWithDetails 0 st of
                     (st, Inl e) \<Rightarrow> (st, Inl e)
                   | (st, Inr qualified) \<Rightarrow>
                       (case summarize mid minScoreArg (int (length placesWithDetails))
                               qualified st of
                          (st, res) \<Rightarrow> (st, Inr res))))"

definition logFailure :: "string \<Rightarrow> error \<Rightarrow> Run \<Rightarrow> Run" where
  \<comment> \<open>The \<open>catch\<close> block of \<open>executeMission\<close>, before it throws the error again.\<close>
  "logFailure mid e st =
     (case e of
        Error msg \<Rightarrow>
          let errorMsg = (if msg \<noteq> [] then msg else ''Unknown error occurred'')
          in if includes_str errorMsg ''REQUEST_DENIED''
             then
               logEvent mid ''error''
                 ''  3. API key has no IP/referrer restrictions blocking this server'' None
                 (logEvent mid ''error''
                    ''  2. Billing is set up on your Google Cloud project'' None
                    (logEvent mid ''error''
                       ''  1. Places API is enabled in Google Cloud Console'' None
                       (logEvent mid ''error''
                          ''Google Places API access denied. Please check:'' None st)))
             else logEvent mid ''error'' (''Mission failed: '' @ errorMsg) None st)"

definition executeMission ::
  "'a world_scheme \<Rightarrow> AgentConfig \<Rightarrow> string \<Rightarrow> MissionGoal \<Rightarrow> Run
     \<Rightarrow> Run \<times> (error + AgentResult)" where
  \<comment> \<open>The mission of the agent with configuration \<open>config\<close> and mission id \<open>mid\<close>, from
      the run \<open>st\<close>.  The result holds the run at the end, and the \<open>AgentResult\<close> or the
      error that the mission throws.\<close>
  "executeMission w config mid goal st =
     (let minScoreArg = (case minScore goal of Some m \<Rightarrow> m | None \<Rightarrow> 75);
          maxLeadsArg = (case maxLeads goal of Some m \<Rightarrow> m | None \<Rightarrow> 10);
          st = logEvent mid ''info''
                 (''Starting mission: '' @ query goal @ '' in '' @ location goal) None st;
          st = logEvent mid ''info''
                 (''Target: Find '' @ showInt maxLeadsArg @ '' leads with score >= ''
                  @ showInt minScoreArg) None st
      in case missionBody w config mid goal minScoreArg maxLeadsArg st of
           (st, Inr res) \<Rightarrow> (st, Inr res)
         | (st, Inl e) \<Rightarrow> (logFailure mid e st, Inl e))"

definition newRun :: "Lead list \<Rightarrow> LeadMetrics list \<Rightarrow> Score list \<Rightarrow> MissionEvent list \<Rightarrow> Run" where
  \<comment> \<open>The run of a new \<open>Agent\<close> on the given tables: its private fields are as the
      constructor leaves them.\<close>
  "newRun ls ms ss es =
     \<lparr> leads = ls, leadMetricsTable = ms, scoresTable = ss, missionEvents = es,
       savedLeads = [], processedPlaceIds = {}, processedDomains = {},
       processedPhones = {}, skippedDuplicates = 0, updatedLeads = 0 \<rparr>"

definition qualifiedSaved :: "Run \<Rightarrow> int" where
  \<comment> \<open>The number of leads that the mission has saved as qualified.\<close>
  "qualifiedSaved st =
     int (length (filter (\<lambda>l. SavedLead.status l = ''qualified'') (savedLeads st)))"

definition exampleWorld :: world where
  \<comment> \<open>A world for the closed examples: the search finds two dentists, the details lookup
      gives each a phone and a website, every site audit is aborted by its timeout.\<close>
  "exampleWorld =
     \<lparr> urlHostname = plainHostname, ilike = sqlIlike,
       placesFetch = (\<lambda>q r k.
         Inr \<lparr> SearchResponse.ok = True, statusText = ''OK'', SearchResponse.status = ''OK'',
               error_message = None,
               results = Some
                 [\<lparr> place_id = Some ''place-a'', RawPlace.name = ''A Dental'',
                     formatted_address = Some ''1 First St'', RawPlace.rating = None,
                     user_ratings_total = None, types = Some [''dentist''],
                     lat = None, lng = None \<rparr>,
                  \<lparr> place_id = Some ''place-b'', RawPlace.name = ''B Dental'',
                     formatted_address = Some ''2 Second St'', RawPlace.rating = None,
                     user_ratings_total = None, types = Some [''dentist''],
                     lat = None, lng = None \<rparr>] \<rparr>),
       detailsFetch = (\<lambda>p k.
         Inr \<lparr> DetailsResponse.ok = True,
               formatted_phone_number =
                 Some (if p = ''place-a'' then ''619-555-0001'' else ''619-555-0002''),
               DetailsResponse.website =
                 Some (if p = ''place-a'' then ''https://a-dental.com''
                       else ''https://b-dental.com'') \<rparr>),
       siteFetch = (\<lambda>u. Threw ''AbortError'' ''This operation was aborted''),
       uuid = (\<lambda>n. ''id-'' @ showNat n),
       clock = (\<lambda>n. 1000 + n) \<rparr>"

definition exampleConfig :: AgentConfig where
  "exampleConfig =
     \<lparr> provider = ''openai'', llmApiKey = ''sk-example'',
       placesApiKey = ''AIza-example-key'', strictScoring = Some True \<rparr>"

definition shortKeyConfig :: AgentConfig where
  \<comment> \<open>A configuration whose search credential is too short to be valid.\<close>
  "shortKeyConfig = exampleConfig \<lparr> placesApiKey := ''short'' \<rparr>"

definition exampleGoal :: MissionGoal where
  "exampleGoal =
     \<lparr> query = ''dentists'', location = ''San Diego'', maxLeads = Some 1,
       minScore = Some 75 \<rparr>"





section \<open>Properties\<close>

subsection \<open>Scoring\<close>

lemma fst_bump: "fst (bump c k m st) = fst st + (if c then k else 0)"
  by (simp add: bump_def)

lemma snd_bump: "snd (bump c k m st) = snd st @ (if c then [m] else [])"
  by (simp add: bump_def)

lemma need_eq:
  "ScoreResult.need (scoreLead n a c cat) =
     (if \<not> AuditResult.httpsOk a then 25 else 0) + (if \<not> AuditResult.mobileOk a then 25 else 0)
     + (if \<not> AuditResult.hasBooking a then 30 else 0) + (if \<not> AuditResult.schemaOk a then 10 else 0)
     + (if noPixels (AuditResult.analyticsPixels a) then 10 else 0)"
  by (simp add: scoreLead_def split_def fst_bump snd_bump cong: if_cong)

lemma value_eq:
  "ScoreResult.value (scoreLead n a c cat) =
     50 + (if list_ex (\<lambda>k. includes_str (toLowerCase cat) k) highValueCategories
           then 30 else 0)
     + (if truthy (AuditResult.cmsHint a) \<and> str_of (AuditResult.cmsHint a) \<in> set validCmsHints then 20 else 0)"
  by (simp add: scoreLead_def split_def fst_bump snd_bump cong: if_cong)

lemma reachability_eq:
  "ScoreResult.reachability (scoreLead n a c cat) =
     (if truthy (ContactInfo.phone c) then 40 else 0) + (if truthy (ContactInfo.email c) then 30 else 0)
     + (if truthy (ContactInfo.website c) then 30 else 0)"
  by (simp add: scoreLead_def split_def fst_bump snd_bump cong: if_cong)

lemma total_eq:
  "ScoreResult.total (scoreLead n a c cat) =
     Math_round (of_int (ScoreResult.need (scoreLead n a c cat) + ScoreResult.value (scoreLead n a c cat)
                          + ScoreResult.reachability (scoreLead n a c cat)) / 3)"
  by (simp add: scoreLead_def Let_def split_def cong: if_cong)

lemma reasons_eq:
  "ScoreResult.reasons (scoreLead n a c cat) =
     (if \<not> AuditResult.httpsOk a then [''Missing HTTPS security''] else []) @
     (if \<not> AuditResult.mobileOk a then [''Not mobile optimized''] else []) @
     (if \<not> AuditResult.hasBooking a then [''No online booking system''] else []) @
     (if \<not> AuditResult.schemaOk a then [''Missing structured data''] else []) @
     (if noPixels (AuditResult.analyticsPixels a) then [''No analytics tracking''] else []) @
     (if list_ex (\<lambda>k. includes_str (toLowerCase cat) k) highValueCategories
      then [''High-value industry''] else []) @
     (if truthy (AuditResult.cmsHint a) \<and> str_of (AuditResult.cmsHint a) \<in> set validCmsHints
      then [''Uses '' @ str_of (AuditResult.cmsHint a) @ '' (easy to upgrade)''] else []) @
     (if truthy (ContactInfo.phone c) then [''Phone number available''] else []) @
     (if truthy (ContactInfo.email c) then [''Email address available''] else []) @
     (if truthy (ContactInfo.website c) then [''Website available''] else [])"
  by (simp add: scoreLead_def split_def fst_bump snd_bump cong: if_cong)

lemma Math_round_third: "Math_round (of_int s / 3) = (2 * s + 3) div 6"
proof -
  have "(of_int s / 3 + 1 / 2 :: rat) = of_int (2 * s + 3) / of_int 6" by simp
  then show ?thesis
    unfolding Math_round_def by (simp only: floor_divide_of_int_eq)
qed

lemma need_range: "0 \<le> ScoreResult.need (scoreLead n a c cat) \<and> ScoreResult.need (scoreLead n a c cat) \<le> 100"
  by (simp add: need_eq)

lemma value_range: "50 \<le> ScoreResult.value (scoreLead n a c cat) \<and> ScoreResult.value (scoreLead n a c cat) \<le> 100"
  by (simp add: value_eq)

lemma reachability_range:
  "0 \<le> ScoreResult.reachability (scoreLead n a c cat) \<and> ScoreResult.reachability (scoreLead n a c cat) \<le> 100"
  by (simp add: reachability_eq)

text \<open>
  Claim C1.  For every audit result, contact-info record and category, the \<open>total\<close> that
  \<open>scoreLead\<close> returns is the mean of \<open>need\<close>, \<open>value\<close> and \<open>reachability\<close> rounded to the
  nearest integer with ties going up, and it lies between 0 and 100.  The mean is taken in
  exact arithmetic: the sum is an integer between 50 and 300, so a third of it is never
  within rounding distance of a tie and the double-precision quotient rounds alike.
\<close>

theorem scoreLead_total:
  "ScoreResult.total (scoreLead n a c cat) =
     Math_round (of_int (ScoreResult.need (scoreLead n a c cat) + ScoreResult.value (scoreLead n a c cat)
                          + ScoreResult.reachability (scoreLead n a c cat)) / 3)
   \<and> 0 \<le> ScoreResult.total (scoreLead n a c cat) \<and> ScoreResult.total (scoreLead n a c cat) \<le> 100"
proof -
  let ?s = "ScoreResult.need (scoreLead n a c cat) + ScoreResult.value (scoreLead n a c cat)
            + ScoreResult.reachability (scoreLead n a c cat)"
  have s: "50 \<le> ?s \<and> ?s \<le> 300"
    using need_range [of n a c cat] value_range [of n a c cat]
      reachability_range [of n a c cat]
    by linarith
  have t: "ScoreResult.total (scoreLead n a c cat) = (2 * ?s + 3) div 6"
    by (simp only: total_eq Math_round_third)
  from s have "0 \<le> (2 * ?s + 3) div 6 \<and> (2 * ?s + 3) div 6 \<le> 100" by presburger
  with t total_eq [of n a c cat] show ?thesis by simp
qed

text \<open>
  Claim C8.  When every audit flag is false and no analytics pixel is recorded, as in the
  default audit of a place without a website and of an audit that timed out or failed,
  \<open>scoreLead\<close> gives a need score of exactly 100 and its reasons begin with the five
  deficiency reasons, in the order of the checks.
\<close>

theorem scoreLead_failed_audit_need:
  assumes "\<not> AuditResult.httpsOk a" and "\<not> AuditResult.mobileOk a" and "\<not> AuditResult.hasBooking a" and "\<not> AuditResult.schemaOk a"
    and "noPixels (AuditResult.analyticsPixels a)"
  shows "ScoreResult.need (scoreLead n a c cat) = 100
       \<and> take 5 (ScoreResult.reasons (scoreLead n a c cat)) =
           [''Missing HTTPS security'', ''Not mobile optimized'',
            ''No online booking system'', ''Missing structured data'',
            ''No analytics tracking'']"
  using assms by (simp add: need_eq reasons_eq)

theorem scoreLead_failed_audit_need_witness:
  "\<not> AuditResult.httpsOk (defaultAudit ''timeout'')
   \<and> \<not> AuditResult.mobileOk (defaultAudit ''timeout'')
   \<and> \<not> AuditResult.hasBooking (defaultAudit ''timeout'')
   \<and> \<not> AuditResult.schemaOk (defaultAudit ''timeout'')
   \<and> noPixels (AuditResult.analyticsPixels (defaultAudit ''timeout''))
   \<and> ScoreResult.need
         (scoreLead ''Acme'' (defaultAudit ''timeout'') acmeContact ''dentist'') = 100
   \<and> take 5 (ScoreResult.reasons
         (scoreLead ''Acme'' (defaultAudit ''timeout'') acmeContact ''dentist'')) =
       [''Missing HTTPS security'', ''Not mobile optimized'',
        ''No online booking system'', ''Missing structured data'',
        ''No analytics tracking'']"
proof -
  have h: "\<not> AuditResult.httpsOk (defaultAudit ''timeout'')"
    "\<not> AuditResult.mobileOk (defaultAudit ''timeout'')"
    "\<not> AuditResult.hasBooking (defaultAudit ''timeout'')"
    "\<not> AuditResult.schemaOk (defaultAudit ''timeout'')"
    "noPixels (AuditResult.analyticsPixels (defaultAudit ''timeout''))"
    by (simp_all add: defaultAudit_def noPixels_def)
  from scoreLead_failed_audit_need [OF h, of "''Acme''" acmeContact "''dentist''"] h
  show ?thesis by simp
qed

lemma defaultAudit_all_false:
  "\<not> AuditResult.httpsOk (defaultAudit h) \<and> \<not> AuditResult.mobileOk (defaultAudit h) \<and> \<not> AuditResult.hasBooking (defaultAudit h)
   \<and> \<not> AuditResult.schemaOk (defaultAudit h) \<and> noPixels (AuditResult.analyticsPixels (defaultAudit h))"
  by (simp add: defaultAudit_def noPixels_def)

text \<open>
  Claim C9.  The business name does not influence the score: two calls of \<open>scoreLead\<close>
  that differ only in that argument return the same record, reasons included.
\<close>

theorem scoreLead_ignores_businessName: "scoreLead n1 a c cat = scoreLead n2 a c cat"
  by (simp add: scoreLead_def)

subsection \<open>Phone normalization\<close>

lemma trim_nonempty: "\<not> isSpace c \<Longrightarrow> trim (c # cs) \<noteq> []"
proof -
  assume c: "\<not> isSpace c"
  then have "dropWhile isSpace (rev cs @ [c]) \<noteq> []"
    by (simp add: dropWhile_append)
  with c show ?thesis by (simp add: trim_def)
qed

lemma plus_not_digit: "\<not> isDigit CHR ''+''"
  by (simp add: isDigit_def)

lemma plus_not_space: "\<not> isSpace CHR ''+''"
  by (simp add: isSpace_def)

lemma one_digit: "isDigit CHR ''1''"
  by (simp add: isDigit_def)

lemma normalizePhone_plus:
  assumes "10 \<le> length ds" and "length ds \<le> 15" and "length ds \<noteq> 10"
    and "filter isDigit ds = ds"
  shows "normalizePhone (Some (CHR ''+'' # ds)) = Some (CHR ''+'' # ds)"
  using assms by (simp add: normalizePhone_def trim_nonempty plus_not_space plus_not_digit)

text \<open>
  Claim C10.  \<open>normalizePhone\<close> is idempotent on its non-null outputs: whenever it turns an
  input into a phone \<open>q\<close>, it turns \<open>q\<close> into \<open>q\<close> again.
\<close>

theorem normalizePhone_idempotent:
  assumes "normalizePhone p = Some q"
  shows "normalizePhone (Some q) = Some q"
proof (cases p)
  case None
  with assms show ?thesis by (simp add: normalizePhone_def)
next
  case (Some s)
  let ?ds = "filter isDigit s"
  show ?thesis
  proof (cases "length ?ds = 10")
    case True
    with assms Some have q: "q = CHR ''+'' # CHR ''1'' # ?ds"
      by (simp add: normalizePhone_def split: if_splits)
    have "normalizePhone (Some (CHR ''+'' # (CHR ''1'' # ?ds))) = Some (CHR ''+'' # (CHR ''1'' # ?ds))"
      by (rule normalizePhone_plus) (use True in \<open>simp_all add: one_digit\<close>)
    with q show ?thesis by simp
  next
    case False
    with assms Some have q: "q = CHR ''+'' # ?ds"
      and len: "10 \<le> length ?ds" "length ?ds \<le> 15"
      by (auto simp add: normalizePhone_def Let_def split: if_splits)
    have "normalizePhone (Some (CHR ''+'' # ?ds)) = Some (CHR ''+'' # ?ds)"
      by (rule normalizePhone_plus) (use False len in simp_all)
    with q show ?thesis by simp
  qed
qed

theorem normalizePhone_idempotent_witness:
  "normalizePhone (Some ''619-233-3338'') = Some ''+16192333338''
   \<and> normalizePhone (Some ''+16192333338'') = Some ''+16192333338''"
proof -
  have h: "normalizePhone (Some ''619-233-3338'') = Some ''+16192333338''"
    by (simp add: normalizePhone_def trim_def isSpace_def isDigit_def)
  from normalizePhone_idempotent [OF h] h show ?thesis by simp
qed

subsection \<open>Fuzzy matching\<close>

lemma nameSimilarity_a_b: "nameSimilarity ''a'' ''b'' = 0"
  by (simp add: nameSimilarity_def normalizeName_def toLowerCase_def toLowerChar_def
      isWord_def isSpace_def trim_def levenshteinDistance_def)

text \<open>
  Claim C5, as stated, fails where a phone is the empty string: \<open>isFuzzyMatch\<close> tests its
  fields for truthiness, so two leads whose normalized phones are both the empty string
  (equal and not null) are not matched on the phone, and with the dissimilar names \<open>a\<close>
  and \<open>b\<close> the answer is false, where the stated decision list answers true.
\<close>

theorem isFuzzyMatch_empty_phone_counterexample:
  "\<not> isFuzzyMatch (blankPhoneLead ''a'') (blankPhoneLead ''b'') defaultThreshold
   \<and> isFuzzyMatch_stated (blankPhoneLead ''a'') (blankPhoneLead ''b'') defaultThreshold"
  by (simp add: isFuzzyMatch_def isFuzzyMatch_stated_def truthy_def nameSimilarity_a_b
      defaultThreshold_def blankPhoneLead_def)

text \<open>
  Claim C5, amended.  For every pair of leads whose phone and city fields, where present,
  are not the empty string, and for every threshold, \<open>isFuzzyMatch\<close> is the stated decision
  list: true when both normalized phones are present and equal; otherwise false when both
  cities are present and differ case-insensitively; otherwise true exactly when the
  similarity of the normalized names is at least the threshold.
\<close>

theorem isFuzzyMatch_decision_list:
  assumes "FuzzyLead.normalizedPhone lead1 \<noteq> Some []"
    and "FuzzyLead.normalizedPhone lead2 \<noteq> Some []"
    and "FuzzyLead.city lead1 \<noteq> Some []" and "FuzzyLead.city lead2 \<noteq> Some []"
  shows "isFuzzyMatch lead1 lead2 threshold = isFuzzyMatch_stated lead1 lead2 threshold"
  using assms
  by (auto simp add: isFuzzyMatch_def isFuzzyMatch_stated_def truthy_def split: option.splits)

theorem isFuzzyMatch_decision_list_witness:
  "FuzzyLead.normalizedPhone (phoneLead ''a'' ''San Diego'') \<noteq> Some []
   \<and> FuzzyLead.normalizedPhone (phoneLead ''b'' ''Austin'') \<noteq> Some []
   \<and> FuzzyLead.city (phoneLead ''a'' ''San Diego'') \<noteq> Some []
   \<and> FuzzyLead.city (phoneLead ''b'' ''Austin'') \<noteq> Some []
   \<and> isFuzzyMatch (phoneLead ''a'' ''San Diego'') (phoneLead ''b'' ''Austin'') defaultThreshold
       = isFuzzyMatch_stated (phoneLead ''a'' ''San Diego'') (phoneLead ''b'' ''Austin'')
           defaultThreshold
   \<and> isFuzzyMatch (phoneLead ''a'' ''San Diego'') (phoneLead ''b'' ''Austin'') defaultThreshold"
  using isFuzzyMatch_decision_list
    [of "phoneLead ''a'' ''San Diego''" "phoneLead ''b'' ''Austin''" defaultThreshold]
  by (simp add: phoneLead_def isFuzzyMatch_def truthy_def)

subsection \<open>Entity resolution\<close>

lemma firstRow_take1_filter: "firstRow (take 1 (filter P xs)) = List.find P xs"
  by (induction xs) (simp_all add: firstRow_def)

lemma firstFuzzyMatch_find:
  "firstFuzzyMatch probe xs =
     List.find (\<lambda>l. isFuzzyMatch probe (asFuzzy l) defaultThreshold) xs"
  by (induction xs) simp_all

lemma findExistingLead_find:
  "findExistingLead pf rows criteria =
     resolveInOrder (urlHostname pf)
       (\<lambda>l. ilikeColumn pf (Lead.city l) (''%'' @ str_of (Criteria.city criteria) @ ''%'')
            \<and> ilike pf (Lead.name l) (''%'' @ take 10 (str_of (Criteria.name criteria)) @ ''%''))
       rows criteria"
  unfolding findExistingLead_def resolveInOrder_def Let_def
    firstRow_take1_filter firstFuzzyMatch_find
  by (simp split: option.splits)

lemma sqlLike_percent: "sqlLike ''%'' t"
  by (induction t) simp_all

lemma sqlLike_prefix:
  "wildcardFree x \<Longrightarrow> sqlLike (x @ ''%'') t = startsWith t x"
proof (induction x arbitrary: t)
  case Nil
  show ?case by (cases t) (simp_all add: sqlLike_percent)
next
  case (Cons a x)
  then show ?case by (cases t) (auto simp add: wildcardFree_def)
qed

lemma sqlLike_contains:
  "wildcardFree x \<Longrightarrow> sqlLike (CHR ''%'' # x @ ''%'') t = includes_str t x"
proof (induction t)
  case Nil
  then show ?case using sqlLike_prefix [of x "[]"] by (cases x) simp_all
next
  case (Cons c cs)
  then show ?case using sqlLike_prefix [of x "c # cs"] by simp
qed

lemma of_char_toLowerChar:
  "(of_char (toLowerChar c) :: nat) =
     (if (65 \<le> (of_char c :: nat) \<and> (of_char c :: nat) \<le> 90)
         \<or> (192 \<le> (of_char c :: nat) \<and> (of_char c :: nat) \<le> 222 \<and> (of_char c :: nat) \<noteq> 215)
      then of_char c + 32 else of_char c)"
  by (simp add: toLowerChar_def Let_def)

lemma toLowerChar_wildcard:
  "toLowerChar c = CHR ''%'' \<longleftrightarrow> c = CHR ''%''"
  "toLowerChar c = CHR ''_'' \<longleftrightarrow> c = CHR ''_''"
  "toLowerChar c = CHR 0x5C \<longleftrightarrow> c = CHR 0x5C"
proof -
  have e: "a = b \<longleftrightarrow> (of_char a :: nat) = of_char b" for a b :: char
    by simp
  show "toLowerChar c = CHR ''%'' \<longleftrightarrow> c = CHR ''%''"
    unfolding e [of _ "CHR ''%''"] of_char_toLowerChar by auto
  show "toLowerChar c = CHR ''_'' \<longleftrightarrow> c = CHR ''_''"
    unfolding e [of _ "CHR ''_''"] of_char_toLowerChar by auto
  show "toLowerChar c = CHR 0x5C \<longleftrightarrow> c = CHR 0x5C"
    unfolding e [of _ "CHR 0x5C"] of_char_toLowerChar by auto
qed

lemma wildcardFree_toLowerCase: "wildcardFree (toLowerCase x) = wildcardFree x"
  by (induction x) (simp_all add: wildcardFree_def toLowerCase_def toLowerChar_wildcard)

lemma sqlIlike_contains:
  assumes "wildcardFree x"
  shows "sqlIlike t (''%'' @ x @ ''%'') = includes_str (toLowerCase t) (toLowerCase x)"
proof -
  have "toLowerCase (''%'' @ x @ ''%'') = CHR ''%'' # toLowerCase x @ ''%''"
    by (simp add: toLowerCase_def toLowerChar_def)
  with sqlLike_contains [of "toLowerCase x" "toLowerCase t"] assms
  show ?thesis by (simp add: sqlIlike_def wildcardFree_toLowerCase)
qed

text \<open>
  Claim C2, as stated, fails on criterion 4.  The code asks the database for the leads
  whose name matches the pattern made of the first ten characters of the candidate's name
  between two percent signs: a name that holds these characters anywhere, not only one
  that begins with them.  The stored lead \<open>A Bright Smile Dental Care Center\<close> of San
  Diego is resolved for the candidate \<open>Bright Smile Dental Care Center\<close> of San Diego,
  though the two names share no prefix: the stated resolution finds no lead.
\<close>

theorem findExistingLead_prefix_counterexample:
  "findExistingLead plainPlatform [brightRow] brightCriteria = Some brightRow
   \<and> findExistingLead_stated plainHostname [brightRow] brightCriteria = None"
  by code_simp

text \<open>
  Claim C2, amended.  With the operator \<open>ILIKE\<close> of the database, and for every candidate
  whose city and first ten characters of the name hold no percent sign, underscore or
  backslash, \<open>findExistingLead\<close> checks the identity criteria in strict order, and the
  first that yields a lead wins: (1) the first lead with exactly the candidate's place id,
  when the candidate supplies a non-empty one; (2) the first lead with exactly the
  canonical domain of the candidate's website; (3) when the candidate has a normalized
  phone and a name, the first fuzzy match among the first ten leads with that phone;
  (4) when the candidate has a name and a city, the first fuzzy match among the first
  twenty leads whose city contains the candidate's city and whose name contains the first
  ten characters of the candidate's name, both without regard to case; (5) otherwise
  none.
\<close>

theorem findExistingLead_strict_order:
  fixes pf :: "'a platform_scheme"
  assumes "ilike pf = sqlIlike"
    and "wildcardFree (str_of (Criteria.city criteria))"
    and "wildcardFree (take 10 (str_of (Criteria.name criteria)))"
  shows "findExistingLead pf rows criteria
         = findExistingLead_amended (urlHostname pf) rows criteria"
proof -
  have "(\<lambda>l. ilikeColumn pf (Lead.city l) (''%'' @ str_of (Criteria.city criteria) @ ''%'')
            \<and> ilike pf (Lead.name l) (''%'' @ take 10 (str_of (Criteria.name criteria)) @ ''%''))
      = (\<lambda>l. cityIncludes (str_of (Criteria.city criteria)) l
            \<and> nameIncludes (str_of (Criteria.name criteria)) l)"
    unfolding ilikeColumn_def cityIncludes_def nameIncludes_def assms(1)
      sqlIlike_contains [OF assms(2)] sqlIlike_contains [OF assms(3)]
    by (rule refl)
  then show ?thesis
    unfolding findExistingLead_find findExistingLead_amended_def by simp
qed

theorem findExistingLead_strict_order_witness:
  "ilike plainPlatform = sqlIlike
   \<and> wildcardFree (str_of (Criteria.city brightCriteria))
   \<and> wildcardFree (take 10 (str_of (Criteria.name brightCriteria)))
   \<and> findExistingLead plainPlatform [brightRow] brightCriteria
     = findExistingLead_amended plainHostname [brightRow] brightCriteria
   \<and> findExistingLead_amended plainHostname [brightRow] brightCriteria = Some brightRow"
proof -
  have a: "ilike plainPlatform = sqlIlike" by (simp add: plainPlatform_def)
  have b: "wildcardFree (str_of (Criteria.city brightCriteria))"
    by (simp add: brightCriteria_def str_of_def wildcardFree_def)
  have c: "wildcardFree (take 10 (str_of (Criteria.name brightCriteria)))"
    by (simp add: brightCriteria_def str_of_def wildcardFree_def)
  have d: "findExistingLead_amended plainHostname [brightRow] brightCriteria = Some brightRow"
    by code_simp
  have e: "urlHostname plainPlatform = plainHostname" by (simp add: plainPlatform_def)
  from findExistingLead_strict_order [OF a b c, of "[brightRow]"] a b c d e
  show ?thesis by simp
qed

text \<open>
  The characters that \<open>LIKE\<close> reads as wildcards are not escaped in the patterns: an
  underscore in the candidate's name stands for any character, so that the stored lead is
  resolved although its name does not contain the candidate's first ten characters.
\<close>

lemma findExistingLead_underscore:
  "findExistingLead plainPlatform [brightRow] underscoreCriteria = Some brightRow
   \<and> findExistingLead_amended plainHostname [brightRow] underscoreCriteria = None"
  by code_simp

subsection \<open>Upsert\<close>

lemma normalizePhone_orUndefined: "normalizePhone (orUndefined p) = normalizePhone p"
  by (cases p) (simp_all add: orUndefined_def truthy_def normalizePhone_def)

lemma normalizeDomain_orUndefined: "normalizeDomain P (orUndefined d) = normalizeDomain P d"
  by (cases d) (simp_all add: orUndefined_def truthy_def normalizeDomain_def)

lemma toLowerCase_Nil_iff: "toLowerCase s = [] \<longleftrightarrow> s = []"
  by (simp add: toLowerCase_def)

lemma normalizeDomain_truthy: "normalizeDomain P d = Some c \<Longrightarrow> c \<noteq> []"
  by (auto simp add: normalizeDomain_def Let_def toLowerCase_Nil_iff split: option.splits if_splits)

lemma normalizePhone_truthy: "normalizePhone p = Some q \<Longrightarrow> q \<noteq> []"
  by (auto simp add: normalizePhone_def Let_def split: option.splits if_splits)

lemma find_append_single:
  "List.find P (xs @ [x]) = (case List.find P xs of Some y \<Rightarrow> Some y | None \<Rightarrow> if P x then Some x else None)"
  by (induction xs) simp_all

lemma isFuzzyMatch_same_phone:
  "truthy p \<Longrightarrow> FuzzyLead.normalizedPhone a = p \<Longrightarrow> FuzzyLead.normalizedPhone b = p
   \<Longrightarrow> isFuzzyMatch a b t"
  by (simp add: isFuzzyMatch_def)

lemma same_phone_none:
  assumes "truthy p"
    and "List.find (\<lambda>l. isFuzzyMatch \<lparr> FuzzyLead.name = n, FuzzyLead.city = c, FuzzyLead.normalizedPhone = p \<rparr> (asFuzzy l) defaultThreshold)
           (take 10 (filter (\<lambda>l. Lead.normalizedPhone l = p) rows)) = None"
  shows "filter (\<lambda>l. Lead.normalizedPhone l = p) rows = []"
proof (cases "filter (\<lambda>l. Lead.normalizedPhone l = p) rows")
  case Nil
  then show ?thesis .
next
  case (Cons l ls)
  then have "l \<in> set (filter (\<lambda>l. Lead.normalizedPhone l = p) rows)" by simp
  then have "Lead.normalizedPhone l = p" by simp
  then have "isFuzzyMatch \<lparr> FuzzyLead.name = n, FuzzyLead.city = c, FuzzyLead.normalizedPhone = p \<rparr> (asFuzzy l) defaultThreshold"
    using assms(1) by (intro isFuzzyMatch_same_phone [of p]) (simp_all add: asFuzzy_def)
  with assms(2) Cons show ?thesis by simp
qed

lemma refind_created:
  fixes pf :: "'a platform_scheme"
  defines "cd \<equiv> \<lambda>pf ins. normalizeDomain (urlHostname pf) (InsertLead.domain ins)"
  defines "np \<equiv> \<lambda>ins. normalizePhone (InsertLead.phone ins)"
  assumes none: "findExistingLead pf leads0 (criteriaOf ins) = None"
    and ident: "truthy (InsertLead.placeId ins) \<or> cd pf ins \<noteq> None
                \<or> (np ins \<noteq> None \<and> InsertLead.name ins \<noteq> [])"
  shows "findExistingLead pf (leads0 @ [newRow ins (cd pf ins) (np ins) newId now]) (criteriaOf ins)
         = Some (newRow ins (cd pf ins) (np ins) newId now)"
proof -
  define created where "created = newRow ins (cd pf ins) (np ins) newId now"
  define probe where "probe = \<lparr> FuzzyLead.name = InsertLead.name ins,
                   FuzzyLead.city = orUndefined (InsertLead.city ins),
                   FuzzyLead.normalizedPhone = np ins \<rparr>"
  define c1 where "c1 = (\<lambda>rows :: Lead list. if truthy (InsertLead.placeId ins)
       then List.find (\<lambda>l. Lead.placeId l = InsertLead.placeId ins) rows else None)"
  define c2 where "c2 = (\<lambda>rows :: Lead list. if cd pf ins \<noteq> None
       then List.find (\<lambda>l. Lead.canonicalDomain l = cd pf ins) rows else None)"
  define c3 where "c3 = (\<lambda>rows :: Lead list. if np ins \<noteq> None \<and> InsertLead.name ins \<noteq> []
       then List.find (\<lambda>l. isFuzzyMatch probe (asFuzzy l) defaultThreshold)
              (take 10 (filter (\<lambda>l. Lead.normalizedPhone l = np ins) rows)) else None)"
  have cdt: "truthy (cd pf ins) \<longleftrightarrow> cd pf ins \<noteq> None"
    using normalizeDomain_truthy [of "urlHostname pf" "InsertLead.domain ins"]
    by (cases "cd pf ins") (auto simp add: truthy_def cd_def)
  have npt: "truthy (np ins) \<longleftrightarrow> np ins \<noteq> None"
    using normalizePhone_truthy [of "InsertLead.phone ins"]
    by (cases "np ins") (auto simp add: truthy_def np_def)
  have pid: "truthy (InsertLead.placeId ins) \<Longrightarrow> orUndefined (InsertLead.placeId ins) = InsertLead.placeId ins"
    by (simp add: orUndefined_def)
  have pid': "truthy (orUndefined (InsertLead.placeId ins)) \<longleftrightarrow> truthy (InsertLead.placeId ins)"
    by (simp add: orUndefined_def truthy_def)
  have nmt: "truthy (Some (InsertLead.name ins)) \<longleftrightarrow> InsertLead.name ins \<noteq> []"
    by (simp add: truthy_def)
  have fe: "findExistingLead pf rows (criteriaOf ins) = None \<longleftrightarrow>
        c1 rows = None \<and> c2 rows = None \<and> c3 rows = None
        \<and> findExistingLead pf rows (criteriaOf ins) = None" for rows
    unfolding findExistingLead_find resolveInOrder_def criteriaOf_def Let_def
      c1_def c2_def c3_def probe_def
    using cdt npt
    by (auto simp add: pid pid' nmt normalizeDomain_orUndefined normalizePhone_orUndefined
        cd_def np_def str_of_def split: if_splits option.splits)
  have f1: "c1 rows = Some x \<Longrightarrow> findExistingLead pf rows (criteriaOf ins) = Some x" for rows x
    unfolding findExistingLead_find resolveInOrder_def criteriaOf_def Let_def c1_def
    by (auto simp add: pid pid' split: if_splits)
  have f2: "c1 rows = None \<Longrightarrow> c2 rows = Some x
        \<Longrightarrow> findExistingLead pf rows (criteriaOf ins) = Some x" for rows x
    unfolding findExistingLead_find resolveInOrder_def criteriaOf_def Let_def
      c1_def c2_def
    using cdt
    by (auto simp add: pid pid' normalizeDomain_orUndefined cd_def split: if_splits)
  have f3: "c1 rows = None \<Longrightarrow> c2 rows = None \<Longrightarrow> c3 rows = Some x
        \<Longrightarrow> findExistingLead pf rows (criteriaOf ins) = Some x" for rows x
    unfolding findExistingLead_find resolveInOrder_def criteriaOf_def Let_def
      c1_def c2_def c3_def probe_def
    using cdt npt
    by (auto simp add: pid pid' nmt normalizeDomain_orUndefined normalizePhone_orUndefined
        cd_def np_def str_of_def split: if_splits)
  from none fe [of leads0]
  have n1: "c1 leads0 = None" and n2: "c2 leads0 = None" and n3: "c3 leads0 = None" by simp_all
  have c_pid: "Lead.placeId created = InsertLead.placeId ins"
    and c_cd: "Lead.canonicalDomain created = cd pf ins"
    and c_np: "Lead.normalizedPhone created = np ins"
    by (simp_all add: newRow_def created_def)
  have "findExistingLead pf (leads0 @ [created]) (criteriaOf ins) = Some created"
  proof (cases "truthy (InsertLead.placeId ins)")
    case True
    with n1 c_pid have "c1 (leads0 @ [created]) = Some created"
      by (simp add: c1_def find_append_single)
    then show ?thesis by (rule f1)
  next
    case noPid: False
    then have a1: "c1 (leads0 @ [created]) = None" by (simp add: c1_def)
    show ?thesis
    proof (cases "cd pf ins \<noteq> None")
      case True
      with n2 c_cd have "c2 (leads0 @ [created]) = Some created"
        by (simp add: c2_def find_append_single)
      with a1 show ?thesis by (rule f2)
    next
      case noCd: False
      then have a2: "c2 (leads0 @ [created]) = None" by (simp add: c2_def)
      from noPid noCd ident have ph: "np ins \<noteq> None" and nm: "InsertLead.name ins \<noteq> []" by auto
      from npt ph have t: "truthy (np ins)" by simp
      from n3 ph nm have "List.find (\<lambda>l. isFuzzyMatch probe (asFuzzy l) defaultThreshold)
              (take 10 (filter (\<lambda>l. Lead.normalizedPhone l = np ins) leads0)) = None"
        by (simp add: c3_def)
      then have e: "filter (\<lambda>l. Lead.normalizedPhone l = np ins) leads0 = []"
        unfolding probe_def by (rule same_phone_none [OF t])
      have m: "isFuzzyMatch probe (asFuzzy created) defaultThreshold"
        using t c_np by (intro isFuzzyMatch_same_phone [of "np ins"]) (simp_all add: asFuzzy_def probe_def)
      from ph nm e m c_np have "c3 (leads0 @ [created]) = Some created"
        by (simp add: c3_def)
      with a1 a2 show ?thesis by (rule f3)
    qed
  qed
  then show ?thesis by (simp add: created_def)
qed

lemma mergeInto_created:
  "mergeInto ins cd np (newRow ins cd np newId now1) now2 (newRow ins cd np newId now1)
   = (newRow ins cd np newId now1) \<lparr> Lead.updatedAt := now2 \<rparr>"
  by (simp add: mergeInto_def newRow_def coalesce_def split: option.splits)

lemma uniqueOk_touch:
  "uniqueOk (leads0 @ [row \<lparr> Lead.updatedAt := t \<rparr>]) = uniqueOk (leads0 @ [row])"
  by (simp add: uniqueOk_def List.map_filter_def)

lemma map_other_ids:
  "newId \<notin> set (map Lead.id leads0)
   \<Longrightarrow> map (\<lambda>row. if Lead.id row = newId then f row else row) leads0 = leads0"
  by (induction leads0) auto

lemma filter_other_ids:
  "newId \<notin> set (map Lead.id leads0) \<Longrightarrow> filter (\<lambda>row. Lead.id row = newId) leads0 = []"
  by (induction leads0) auto

lemma upsertLead_created:
  assumes "upsertLead pf leads0 ins newId now1 = Inr (r1, leads1)" and "isNew r1"
  shows "findExistingLead pf leads0 (criteriaOf ins) = None
       \<and> r1 = \<lparr> lead = newRow ins (normalizeDomain (urlHostname pf) (InsertLead.domain ins))
                          (normalizePhone (InsertLead.phone ins)) newId now1,
                 isNew = True, wasUpdated = False \<rparr>
       \<and> leads1 = leads0 @ [lead r1] \<and> uniqueOk leads1"
  using assms
  by (auto simp add: upsertLead_def Let_def split: option.splits if_splits)

lemma upsertLead_again:
  fixes pf :: "'a platform_scheme"
  assumes first: "upsertLead pf leads0 ins newId now1 = Inr (r1, leads1)" and new: "isNew r1"
    and ident: "truthy (InsertLead.placeId ins)
                \<or> normalizeDomain (urlHostname pf) (InsertLead.domain ins) \<noteq> None
                \<or> (normalizePhone (InsertLead.phone ins) \<noteq> None \<and> InsertLead.name ins \<noteq> [])"
  shows "upsertLead pf leads1 ins newId' now2 =
           Inr (\<lparr> lead = (lead r1) \<lparr> Lead.updatedAt := now2 \<rparr>, isNew = False, wasUpdated = True \<rparr>,
                leads0 @ [(lead r1) \<lparr> Lead.updatedAt := now2 \<rparr>])"
proof -
  define cd where "cd = normalizeDomain (urlHostname pf) (InsertLead.domain ins)"
  define np where "np = normalizePhone (InsertLead.phone ins)"
  define created where "created = newRow ins cd np newId now1"
  from upsertLead_created [OF first new]
  have none: "findExistingLead pf leads0 (criteriaOf ins) = None"
    and l1: "leads1 = leads0 @ [created]" and r1: "lead r1 = created"
    and u: "uniqueOk (leads0 @ [created])"
    by (auto simp add: created_def cd_def np_def)
  have idc: "Lead.id created = newId" by (simp add: created_def newRow_def)
  from u idc have fresh: "newId \<notin> set (map Lead.id leads0)"
    by (auto simp add: uniqueOk_def)
  have found: "findExistingLead pf leads1 (criteriaOf ins) = Some created"
    unfolding l1 created_def cd_def np_def
    by (rule refind_created [OF none]) (use ident in simp)
  have merged: "mergeInto ins cd np created now2 created = created \<lparr> Lead.updatedAt := now2 \<rparr>"
    unfolding created_def by (rule mergeInto_created)
  have m: "map (\<lambda>row. if Lead.id row = Lead.id created
                         then mergeInto ins cd np created now2 row else row) leads1
           = leads0 @ [created \<lparr> Lead.updatedAt := now2 \<rparr>]"
    using fresh by (simp add: l1 idc map_other_ids merged)
  have f: "firstRow (filter (\<lambda>row. Lead.id row = Lead.id created)
             (leads0 @ [created \<lparr> Lead.updatedAt := now2 \<rparr>]))
           = Some (created \<lparr> Lead.updatedAt := now2 \<rparr>)"
    using fresh by (simp add: idc filter_other_ids firstRow_def)
  from u have u': "uniqueOk (leads0 @ [created \<lparr> Lead.updatedAt := now2 \<rparr>])"
    by (simp only: uniqueOk_touch)
  show ?thesis
    unfolding upsertLead_def Let_def cd_def [symmetric] np_def [symmetric]
    by (simp add: found m f u' r1 del: filter_append)
qed

lemmas upsert_eval =
  upsertLead_def findExistingLead_def criteriaOf_def normalizeDomain_def normalizePhone_def
  orUndefined_def truthy_def newRow_def uniqueOk_def firstRow_def List.map_filter_def
  plainPlatform_def acmeCandidate_def acmeRow_def namelessCandidate_def mergeInto_def coalesce_def Let_def

lemma acme_first:
  "upsertLead plainPlatform [] acmeCandidate ''id-1'' 1000
   = Inr (\<lparr> lead = acmeRow, isNew = True, wasUpdated = False \<rparr>, [acmeRow])"
  by (simp add: upsert_eval)

text \<open>
  Claim C3, as stated, fails on the flag \<open>wasUpdated\<close>: the update path sets it to true
  without comparing anything.  A candidate with a place id is upserted twice into an empty
  table, both calls reading the same clock value: the second call leaves the table exactly
  as the first one left it, and reports \<open>wasUpdated = true\<close>.  With a later clock reading
  the only column that differs is \<open>updatedAt\<close>.
\<close>

theorem upsertLead_wasUpdated_counterexample:
  "upsertLead plainPlatform [] acmeCandidate ''id-1'' 1000
     = Inr (\<lparr> lead = acmeRow, isNew = True, wasUpdated = False \<rparr>, [acmeRow])
   \<and> upsertLead plainPlatform [acmeRow] acmeCandidate ''id-2'' 1000
     = Inr (\<lparr> lead = acmeRow, isNew = False, wasUpdated = True \<rparr>, [acmeRow])"
  by (simp add: upsert_eval)

text \<open>
  A candidate with nothing to identify it by (no place id, no website, no phone, no city)
  is never resolved: the second upsert creates a second row.
\<close>

lemma upsertLead_nameless_twice:
  "upsertLead plainPlatform [] namelessCandidate ''id-1'' 1000
     = Inr (\<lparr> lead = acmeRow \<lparr> Lead.placeId := None \<rparr>, isNew = True, wasUpdated = False \<rparr>,
            [acmeRow \<lparr> Lead.placeId := None \<rparr>])
   \<and> upsertLead plainPlatform [acmeRow \<lparr> Lead.placeId := None \<rparr>] namelessCandidate ''id-2'' 2000
     = Inr (\<lparr> lead = acmeRow \<lparr> Lead.placeId := None, Lead.id := ''id-2'',
                             Lead.createdAt := 2000, Lead.updatedAt := 2000 \<rparr>,
              isNew = True, wasUpdated = False \<rparr>,
            [acmeRow \<lparr> Lead.placeId := None \<rparr>,
             acmeRow \<lparr> Lead.placeId := None, Lead.id := ''id-2'',
                       Lead.createdAt := 2000, Lead.updatedAt := 2000 \<rparr>])"
  by (simp add: upsert_eval)

text \<open>
  Claim C3, amended.  When the first upsert of a candidate creates a row (\<open>isNew = true\<close>)
  and the candidate carries a non-empty place id, or a website with a canonical domain, or
  a phone that normalizes together with a non-empty name, then upserting the same candidate
  again succeeds with \<open>isNew = false\<close> and the identical lead id; \<open>wasUpdated\<close> is true on
  that second call whether or not a field changed: the returned row is the first one with
  only \<open>updatedAt\<close> set anew, and the table holds it in place of the first.
\<close>

theorem upsertLead_twice:
  fixes pf :: "'a platform_scheme"
  assumes "upsertLead pf leads0 ins newId now1 = Inr (r1, leads1)" and "isNew r1"
    and "truthy (InsertLead.placeId ins)
         \<or> normalizeDomain (urlHostname pf) (InsertLead.domain ins) \<noteq> None
         \<or> (normalizePhone (InsertLead.phone ins) \<noteq> None \<and> InsertLead.name ins \<noteq> [])"
  shows "\<exists>r2 leads2. upsertLead pf leads1 ins newId' now2 = Inr (r2, leads2)
           \<and> \<not> isNew r2 \<and> wasUpdated r2 \<and> Lead.id (lead r2) = Lead.id (lead r1)
           \<and> lead r2 = (lead r1) \<lparr> Lead.updatedAt := now2 \<rparr>
           \<and> leads2 = butlast leads1 @ [lead r2]"
proof -
  from upsertLead_created [OF assms(1,2)] have "leads1 = leads0 @ [lead r1]" by simp
  with upsertLead_again [OF assms, of newId' now2] show ?thesis by simp
qed

theorem upsertLead_twice_witness:
  "upsertLead plainPlatform [] acmeCandidate ''id-1'' 1000
     = Inr (\<lparr> lead = acmeRow, isNew = True, wasUpdated = False \<rparr>, [acmeRow])
   \<and> truthy (InsertLead.placeId acmeCandidate)
   \<and> (\<exists>r2 leads2. upsertLead plainPlatform [acmeRow] acmeCandidate ''id-2'' 2000 = Inr (r2, leads2)
           \<and> \<not> isNew r2 \<and> wasUpdated r2 \<and> Lead.id (lead r2) = ''id-1''
           \<and> lead r2 = acmeRow \<lparr> Lead.updatedAt := 2000 \<rparr>
           \<and> leads2 = [lead r2])"
proof -
  have t: "truthy (InsertLead.placeId acmeCandidate)"
    by (simp add: acmeCandidate_def truthy_def)
  have i: "Lead.id acmeRow = ''id-1''" by (simp add: acmeRow_def)
  from upsertLead_twice [OF acme_first _ disjI1 [OF t], of "''id-2''" 2000] acme_first t i
  show ?thesis by simp
qed

subsection \<open>Domain normalization\<close>

lemma toLowerChar_idem: "toLowerChar (toLowerChar c) = toLowerChar c"
proof -
  have b: "(of_char c :: nat) < 256" by simp
  show ?thesis
    using b by (auto simp add: toLowerChar_def Let_def)
qed

lemma toLowerCase_idem: "toLowerCase (toLowerCase s) = toLowerCase s"
  by (simp add: toLowerCase_def toLowerChar_idem)

lemma toLowerCase_drop: "toLowerCase (drop n s) = drop n (toLowerCase s)"
  by (simp add: toLowerCase_def drop_map)

lemma moreLabels_dot: "moreLabels x \<noteq> [] \<Longrightarrow> CHR ''.'' \<in> set (moreLabels x)"
  by (subst (asm) moreLabels.simps, subst moreLabels.simps)
     (auto split: list.splits if_splits)

lemma domainAt_dot: "domainAt s = Some m \<Longrightarrow> CHR ''.'' \<in> set m"
  by (auto simp add: domainAt_def Let_def moreLabels_dot split: list.splits if_splits)

lemma wwwThenDomain_dot: "wwwThenDomain s = Some m \<Longrightarrow> CHR ''.'' \<in> set m"
  by (auto simp add: wwwThenDomain_def domainAt_dot split: if_splits option.splits)

lemma matchAt_dot: "matchAt s = Some m \<Longrightarrow> CHR ''.'' \<in> set m"
  by (auto simp add: matchAt_def wwwThenDomain_dot split: option.splits)

lemma domainMatch_dot: "domainMatch s = Some m \<Longrightarrow> CHR ''.'' \<in> set m"
  by (induction s) (auto simp add: matchAt_dot split: option.splits)

lemma toLowerChar_dot: "toLowerChar CHR ''.'' = CHR ''.''"
  by (simp add: toLowerChar_def)

lemma normalizeDomain_output:
  assumes "normalizeDomain P (Some s) = Some d"
  shows "toLowerCase d = d \<and> d \<noteq> [] \<and> d \<noteq> ''localhost''"
proof -
  have "toLowerCase d = d \<and> d \<noteq> ''localhost''"
  proof (cases "P (if \<not> hasHttpScheme (trim s) then ''https://'' @ trim s else trim s)")
    case None
    with assms obtain m where m: "domainMatch s = Some m" and d: "d = toLowerCase m"
      by (auto simp add: normalizeDomain_def Let_def split: option.splits if_splits)
    from domainMatch_dot [OF m] have "CHR ''.'' \<in> set d"
      unfolding d toLowerCase_def using toLowerChar_dot by force
    then have "d \<noteq> ''localhost''" by auto
    with d show ?thesis by (simp add: toLowerCase_idem)
  next
    case (Some h)
    with assms show ?thesis
      by (auto simp add: normalizeDomain_def Let_def toLowerCase_idem toLowerCase_drop
          split: if_splits)
  qed
  with normalizeDomain_truthy [OF assms] show ?thesis by simp
qed

lemma trim_clean:
  assumes "list_all (\<lambda>c. \<not> isSpace c) d"
  shows "trim d = d"
proof -
  have a: "dropWhile isSpace xs = xs" if "list_all (\<lambda>c. \<not> isSpace c) xs" for xs
    using that by (cases xs) simp_all
  have "list_all (\<lambda>c. \<not> isSpace c) (rev d)" using assms by (simp add: list_all_iff)
  with assms show ?thesis by (simp add: trim_def a)
qed

lemma startsWith_prefix: "startsWith s p \<longleftrightarrow> prefix p s"
  by (induction s p rule: startsWith.induct) auto

lemma hasHttpScheme_slash:
  assumes "hasHttpScheme d" and "toLowerCase d = d"
  shows "CHR ''/'' \<in> set d"
proof -
  from assms have "prefix ''http://'' d \<or> prefix ''https://'' d"
    by (simp add: hasHttpScheme_def startsWith_prefix)
  then show ?thesis by (auto simp add: prefix_def)
qed

lemma hasHttpScheme_https: "hasHttpScheme (''https://'' @ x)"
  by (simp add: hasHttpScheme_def toLowerCase_def toLowerChar_def)

text \<open>The parser of the closed examples has the three properties of the amended claim.\<close>

lemma toLowerChar_is_dot: "toLowerChar c = CHR ''.'' \<longleftrightarrow> c = CHR ''.''"
proof -
  have e: "a = b \<longleftrightarrow> (of_char a :: nat) = of_char b" for a b :: char
    by simp
  show ?thesis
    unfolding e [of _ "CHR ''.''"] of_char_toLowerChar by auto
qed

lemma toLowerChar_is_hyphen: "toLowerChar c = CHR ''-'' \<longleftrightarrow> c = CHR ''-''"
proof -
  have e: "a = b \<longleftrightarrow> (of_char a :: nat) = of_char b" for a b :: char
    by simp
  show ?thesis
    unfolding e [of _ "CHR ''-''"] of_char_toLowerChar by auto
qed

lemma hostChar_lower: "hostChar c \<Longrightarrow> hostChar (toLowerChar c)"
  unfolding hostChar_def isAlnum_def isDigit_def Let_def toLowerChar_is_dot
    toLowerChar_is_hyphen of_char_toLowerChar
  by auto

lemma hostChar_clean: "hostChar c \<Longrightarrow> \<not> isSpace c \<and> c \<noteq> CHR ''/''"
  unfolding hostChar_def isAlnum_def isDigit_def isSpace_def Let_def
  by auto

lemma startsWith_dot_lower: "startsWith (toLowerCase h) ''.'' \<longleftrightarrow> startsWith h ''.''"
  by (cases h) (simp_all add: toLowerCase_def toLowerChar_is_dot)

lemma startsWith_dots_lower: "startsWith (toLowerCase h) ''..'' \<longleftrightarrow> startsWith h ''..''"
proof (cases h)
  case Nil
  then show ?thesis by (simp add: toLowerCase_def)
next
  case (Cons a t)
  then show ?thesis by (cases t) (simp_all add: toLowerCase_def toLowerChar_is_dot)
qed

lemma includes_dots_lower: "includes_str (toLowerCase h) ''..'' \<longleftrightarrow> includes_str h ''..''"
proof (induction h)
  case Nil
  show ?case by (simp add: toLowerCase_def)
next
  case (Cons a h)
  have "toLowerCase (a # h) = toLowerChar a # toLowerCase h" by (simp add: toLowerCase_def)
  with Cons startsWith_dots_lower [of "a # h"] show ?case by simp
qed

lemma includes_str_append: "includes_str r p \<Longrightarrow> includes_str (x @ r) p"
proof (induction x)
  case Nil
  then show ?case by simp
next
  case (Cons a x)
  then show ?case by simp
qed

lemma isPlainHost_lower:
  assumes "isPlainHost h"
  shows "isPlainHost (toLowerCase h)"
proof -
  from assms have "list_all hostChar h" by (simp add: isPlainHost_def)
  then have "list_all hostChar (toLowerCase h)"
    by (simp add: list_all_iff toLowerCase_def hostChar_lower)
  with assms show ?thesis
    by (simp add: isPlainHost_def toLowerCase_Nil_iff startsWith_dot_lower
        includes_dots_lower toLowerCase_idem)
qed

lemma isPlainHost_www:
  assumes "isPlainHost (''www.'' @ r)" and "r \<noteq> []" and "toLowerCase (''www.'' @ r) = ''www.'' @ r"
  shows "isPlainHost r"
proof -
  from assms(3) have lr: "toLowerCase r = r" by (simp add: toLowerCase_def)
  from assms(1) have a: "list_all hostChar r"
    and b: "\<not> includes_str (''www.'' @ r) ''..''"
    and c: "\<not> includes_str (toLowerCase (''www.'' @ r)) ''xn--''"
    by (simp_all add: isPlainHost_def)
  from b have b1: "\<not> includes_str r ''..''" using includes_str_append [of r "''..''" "''www.''"] by blast
  from b have b2: "\<not> startsWith r ''.''" by (cases r) auto
  from c assms(3) have "\<not> includes_str (''www.'' @ r) ''xn--''" by simp
  then have c1: "\<not> includes_str r ''xn--''"
    using includes_str_append [of r "''xn--''" "''www.''"] by blast
  from a b1 b2 c1 assms(2) lr show ?thesis by (simp add: isPlainHost_def)
qed

lemma isPlainHost_clean:
  "isPlainHost h \<Longrightarrow> list_all (\<lambda>c. \<not> isSpace c \<and> c \<noteq> CHR ''/'') h"
  unfolding isPlainHost_def
  by (auto simp add: list_all_iff dest: hostChar_clean)

lemma plainHostname_out:
  assumes "plainHostname u = Some h"
  shows "isPlainHost h \<and> toLowerCase h = h"
  using assms
  by (auto simp add: plainHostname_def Let_def isPlainHost_lower toLowerCase_idem
      split: option.splits if_splits)

lemma plainHostname_https:
  assumes "isPlainHost h" and "toLowerCase h = h"
  shows "plainHostname (''https://'' @ h) = Some h"
proof -
  have s: "schemeLength (''https://'' @ h) = Some 8"
    by (simp add: schemeLength_def toLowerCase_def toLowerChar_def)
  from isPlainHost_clean [OF assms(1)] have "\<forall>c\<in>set h. c \<noteq> CHR ''/''"
    by (simp add: list_all_iff)
  then have t: "takeWhile (\<lambda>c. c \<noteq> CHR ''/'') h = h" by simp
  from s assms show ?thesis by (simp add: plainHostname_def Let_def t)
qed

lemma plainHostname_canon:
  "plainHostname u = Some h
   \<Longrightarrow> toLowerCase h = h \<and> list_all (\<lambda>c. \<not> isSpace c \<and> c \<noteq> CHR ''/'') h"
  using plainHostname_out [of u h] isPlainHost_clean [of h] by simp

lemma plainHostname_reparse:
  "plainHostname u = Some h \<Longrightarrow> plainHostname (''https://'' @ h) = Some h"
  using plainHostname_out [of u h] plainHostname_https [of h] by simp

lemma plainHostname_www:
  assumes "plainHostname u = Some (''www.'' @ r)" and "r \<noteq> []"
  shows "plainHostname (''https://'' @ r) = Some r"
proof -
  from plainHostname_out [OF assms(1)]
  have p: "isPlainHost (''www.'' @ r)" and l: "toLowerCase (''www.'' @ r) = ''www.'' @ r"
    by simp_all
  from l have lr: "toLowerCase r = r" by (simp add: toLowerCase_def)
  from isPlainHost_www [OF p assms(2) l] lr show ?thesis by (rule plainHostname_https)
qed

text \<open>
  Claim C6, as stated, fails: one leading \<open>www.\<close> is stripped per call, so a host with
  two of them loses one at each of the first two calls.
\<close>

theorem normalizeDomain_double_www_counterexample:
  "normalizeDomain plainHostname (Some ''www.www.example.com'') = Some ''www.example.com''
   \<and> normalizeDomain plainHostname (Some ''www.example.com'') = Some ''example.com''"
  by code_simp

text \<open>
  Claim C6, amended.  \<open>normalizeDomain\<close> is idempotent on every valid URL-like input whose
  output does not begin with \<open>www.\<close>: when the URL parser accepts the input (trimmed, and
  with \<open>https://\<close> put in front of it when it has no scheme \<open>http\<close> or \<open>https\<close>), the
  input is normalized to \<open>d\<close>, and \<open>d\<close> does not begin with \<open>www.\<close>, then \<open>d\<close> is
  normalized to \<open>d\<close>.  The parser is any function with three properties of the
  hostnames that it returns for a URL of scheme \<open>http\<close> or \<open>https\<close>: a hostname is in
  lower case and holds no white space and no slash; a hostname \<open>h\<close> is the hostname of
  \<open>https://h\<close>; and when a hostname is \<open>www.\<close> followed by a non-empty \<open>r\<close>, then \<open>r\<close> is
  the hostname of \<open>https://r\<close>.
\<close>

theorem normalizeDomain_idempotent:
  assumes canon: "\<And>u h. hasHttpScheme u \<Longrightarrow> P u = Some h
                    \<Longrightarrow> toLowerCase h = h \<and> list_all (\<lambda>c. \<not> isSpace c \<and> c \<noteq> CHR ''/'') h"
    and reparse: "\<And>u h. hasHttpScheme u \<Longrightarrow> P u = Some h \<Longrightarrow> P (''https://'' @ h) = Some h"
    and www: "\<And>u r. hasHttpScheme u \<Longrightarrow> P u = Some (''www.'' @ r) \<Longrightarrow> r \<noteq> []
                  \<Longrightarrow> P (''https://'' @ r) = Some r"
    and valid: "P (if \<not> hasHttpScheme (trim s) then ''https://'' @ trim s else trim s) \<noteq> None"
    and out: "normalizeDomain P (Some s) = Some d"
    and noWww: "\<not> startsWith d ''www.''"
  shows "normalizeDomain P (Some d) = Some d"
proof -
  define u where "u = (if \<not> hasHttpScheme (trim s) then ''https://'' @ trim s else trim s)"
  have hu: "hasHttpScheme u"
    unfolding u_def using hasHttpScheme_https [of "trim s"] by auto
  from valid obtain h where ph: "P u = Some h" by (auto simp add: u_def)
  from canon [OF hu ph] have low: "toLowerCase h = h"
    and cl: "list_all (\<lambda>c. \<not> isSpace c \<and> c \<noteq> CHR ''/'') h" by simp_all
  from out ph have d: "d = (if startsWith h ''www.'' then drop 4 h else h)"
    and nl: "d \<noteq> ''localhost''"
    by (auto simp add: normalizeDomain_def Let_def u_def low split: if_splits)
  from normalizeDomain_truthy [OF out] have ne: "d \<noteq> []" .
  have rb: "P (''https://'' @ d) = Some d"
  proof (cases "startsWith h ''www.''")
    case True
    then have "h = ''www.'' @ d" using d by (auto simp add: startsWith_prefix prefix_def)
    with www [OF hu _ ne] ph show ?thesis by simp
  next
    case False
    with d reparse [OF hu ph] show ?thesis by simp
  qed
  have lowd: "toLowerCase d = d"
    using low d by (simp add: toLowerCase_drop)
  have "set d \<subseteq> set h" using d by (auto dest: in_set_dropD)
  with cl have cld: "list_all (\<lambda>c. \<not> isSpace c \<and> c \<noteq> CHR ''/'') d"
    by (auto simp add: list_all_iff)
  then have "list_all (\<lambda>c. \<not> isSpace c) d" by (simp add: list_all_iff)
  then have t: "trim d = d" by (rule trim_clean)
  from cld have "CHR ''/'' \<notin> set d" by (auto simp add: list_all_iff)
  with hasHttpScheme_slash [OF _ lowd] have ns: "\<not> hasHttpScheme d" by blast
  show ?thesis
    using rb by (simp add: normalizeDomain_def Let_def t ns ne lowd noWww nl)
qed

lemma acme_domain:
  "normalizeDomain plainHostname (Some ''https://www.Acme.com/'') = Some ''acme.com''"
  by code_simp

theorem normalizeDomain_idempotent_witness:
  "plainHostname ''https://www.Acme.com/'' \<noteq> None
   \<and> normalizeDomain plainHostname (Some ''https://www.Acme.com/'') = Some ''acme.com''
   \<and> \<not> startsWith ''acme.com'' ''www.''
   \<and> normalizeDomain plainHostname (Some ''acme.com'') = Some ''acme.com''"
proof -
  have v0: "plainHostname ''https://www.Acme.com/'' \<noteq> None"
    by code_simp
  have c: "(if \<not> hasHttpScheme (trim ''https://www.Acme.com/'')
            then ''https://'' @ trim ''https://www.Acme.com/''
            else trim ''https://www.Acme.com/'') = ''https://www.Acme.com/''"
    by code_simp
  have v: "plainHostname (if \<not> hasHttpScheme (trim ''https://www.Acme.com/'')
            then ''https://'' @ trim ''https://www.Acme.com/''
            else trim ''https://www.Acme.com/'') \<noteq> None"
    unfolding c by (rule v0)
  have w: "\<not> startsWith ''acme.com'' ''www.''" by simp
  from normalizeDomain_idempotent [of plainHostname "''https://www.Acme.com/''" "''acme.com''",
      OF plainHostname_canon plainHostname_reparse plainHostname_www v acme_domain w]
    v0 acme_domain w
  show ?thesis by simp
qed

subsection \<open>The mission\<close>

lemma leads_logEvent [simp]: "leads (logEvent mid t m tool st) = leads st"
  by (simp add: logEvent_def)

lemma savedLeads_logEvent [simp]: "savedLeads (logEvent mid t m tool st) = savedLeads st"
  by (simp add: logEvent_def)

lemma leads_foldl_logEvent [simp]:
  "leads (foldl (\<lambda>acc x. logEvent mid t (f x) tool acc) st xs) = leads st"
  by (induction xs arbitrary: st) simp_all

lemma savedLeads_foldl_logEvent [simp]:
  "savedLeads (foldl (\<lambda>acc x. logEvent mid t (f x) tool acc) st xs) = savedLeads st"
  by (induction xs arbitrary: st) simp_all

lemma leads_logAudit [simp]: "leads (logAudit mid a st) = leads st"
  by (simp add: logAudit_def Let_def)

lemma savedLeads_logAudit [simp]: "savedLeads (logAudit mid a st) = savedLeads st"
  by (simp add: logAudit_def Let_def)

lemma leads_markProcessed [simp]: "leads (markProcessed l st) = leads st"
  by (simp add: markProcessed_def)

lemma savedLeads_markProcessed [simp]: "savedLeads (markProcessed l st) = savedLeads st"
  by (simp add: markProcessed_def)

lemma leads_foldl_markProcessed [simp]:
  "leads (foldl (\<lambda>acc l. markProcessed l acc) st ls) = leads st"
  by (induction ls arbitrary: st) simp_all

lemma savedLeads_foldl_markProcessed [simp]:
  "savedLeads (foldl (\<lambda>acc l. markProcessed l acc) st ls) = savedLeads st"
  by (induction ls arbitrary: st) simp_all

lemma leads_logLeadList [simp]: "leads (logLeadList mid ls st) = leads st"
  unfolding logLeadList_def by (induction ls arbitrary: st) simp_all

lemma savedLeads_logLeadList [simp]: "savedLeads (logLeadList mid ls st) = savedLeads st"
  unfolding logLeadList_def by (induction ls arbitrary: st) simp_all


lemma leads_logFailure [simp]: "leads (logFailure mid e st) = leads st"
  by (cases e) (simp add: logFailure_def Let_def)

lemma savedLeads_logFailure [simp]: "savedLeads (logFailure mid e st) = savedLeads st"
  by (cases e) (simp add: logFailure_def Let_def)








lemma qualifiedSaved_push:
  "qualifiedSaved (st \<lparr> savedLeads := savedLeads st @ [l] \<rparr>)
   = qualifiedSaved st + (if SavedLead.status l = ''qualified'' then 1 else 0)"
  by (simp add: qualifiedSaved_def)




















text \<open>
  The mission of the example world, with a target of one lead: both dentists would
  qualify, and exactly the first is saved.
\<close>

lemma example_mission_saved:
  "savedLeads (fst (executeMission exampleWorld exampleConfig ''mission-1'' exampleGoal
      (newRun [] [] [] [])))
   = [\<lparr> SavedLead.id = ''id-0'', SavedLead.name = ''A Dental'', SavedLead.score = 83,
        SavedLead.status = ''qualified'' \<rparr>]"
  by code_simp


lemma invalidKeyMessage_not_denied: "\<not> includes_str invalidKeyMessage ''REQUEST_DENIED''"
  by (simp add: invalidKeyMessage_def)

lemma executeMission_short_key:
  assumes "length (placesApiKey config) < 10"
  shows "executeMission w config mid goal st =
     (st \<lparr> missionEvents := missionEvents st @
         [\<lparr> missionId = mid, eventType = ''info'', toolName = None,
            MissionEvent.message =
              ''Starting mission: '' @ query goal @ '' in '' @ location goal \<rparr>,
          \<lparr> missionId = mid, eventType = ''info'', toolName = None,
            MissionEvent.message =
              ''Target: Find '' @ showInt (case maxLeads goal of Some n \<Rightarrow> n | None \<Rightarrow> 10)
              @ '' leads with score >= ''
              @ showInt (case minScore goal of Some n \<Rightarrow> n | None \<Rightarrow> 75) \<rparr>,
          \<lparr> missionId = mid, eventType = ''tool'', toolName = Some ''search_places'',
            MissionEvent.message = ''Searching for businesses...'' \<rparr>,
          \<lparr> missionId = mid, eventType = ''error'', toolName = None,
            MissionEvent.message = ''Mission failed: '' @ invalidKeyMessage \<rparr>] \<rparr>,
      Inl (Error invalidKeyMessage))"
proof -
  have s: "searchPlaces w (query goal) (location goal) (placesApiKey config) 5000
           = Inl (Error invalidKeyMessage)"
    using assms by (simp add: searchPlaces_def)
  have ne: "invalidKeyMessage \<noteq> []" by (simp add: invalidKeyMessage_def)
  show ?thesis
    by (simp add: executeMission_def missionBody_def Let_def s logFailure_def
        invalidKeyMessage_not_denied ne logEvent_def)
qed

text \<open>
  Claim C7, as stated, fails: \<open>executeMission\<close> logs its two opening entries and the
  entry of the search tool before \<open>searchPlaces\<close> tests the credential, so that the log of
  a mission with an invalid credential holds three entries besides the error.
\<close>

theorem executeMission_invalid_key_counterexample:
  "map eventType (missionEvents (fst
     (executeMission exampleWorld shortKeyConfig ''mission-1'' exampleGoal
        (newRun [] [] [] []))))
   = [''info'', ''info'', ''tool'', ''error'']"
proof -
  have "length (placesApiKey shortKeyConfig) < 10"
    by (simp add: shortKeyConfig_def exampleConfig_def)
  then show ?thesis
    by (simp add: executeMission_short_key newRun_def)
qed

text \<open>
  Claim C7, amended.  When the search credential is missing or invalid (shorter than ten
  characters), the mission fails before any search, audit or save: the event log gains
  exactly four entries, namely the two opening \<open>info\<close> entries, the \<open>tool\<close> entry of the
  search and the single \<open>error\<close> diagnostic, nothing else of the run changes, and the
  error of \<open>searchPlaces\<close> is thrown on.
\<close>

theorem executeMission_invalid_key:
  assumes "length (placesApiKey config) < 10"
  shows "executeMission w config mid goal st =
     (st \<lparr> missionEvents := missionEvents st @
         [\<lparr> missionId = mid, eventType = ''info'', toolName = None,
            MissionEvent.message =
              ''Starting mission: '' @ query goal @ '' in '' @ location goal \<rparr>,
          \<lparr> missionId = mid, eventType = ''info'', toolName = None,
            MissionEvent.message =
              ''Target: Find '' @ showInt (case maxLeads goal of Some n \<Rightarrow> n | None \<Rightarrow> 10)
              @ '' leads with score >= ''
              @ showInt (case minScore goal of Some n \<Rightarrow> n | None \<Rightarrow> 75) \<rparr>,
          \<lparr> missionId = mid, eventType = ''tool'', toolName = Some ''search_places'',
            MissionEvent.message = ''Searching for businesses...'' \<rparr>,
          \<lparr> missionId = mid, eventType = ''error'', toolName = None,
            MissionEvent.message = ''Mission failed: '' @ invalidKeyMessage \<rparr>] \<rparr>,
      Inl (Error invalidKeyMessage))"
  using assms by (rule executeMission_short_key)

theorem executeMission_invalid_key_witness:
  "length (placesApiKey shortKeyConfig) < 10
   \<and> snd (executeMission exampleWorld shortKeyConfig ''mission-1'' exampleGoal
            (newRun [] [] [] [])) = Inl (Error invalidKeyMessage)
   \<and> length (missionEvents (fst (executeMission exampleWorld shortKeyConfig ''mission-1''
            exampleGoal (newRun [] [] [] [])))) = 4"
proof -
  have h: "length (placesApiKey shortKeyConfig) < 10"
    by (simp add: shortKeyConfig_def exampleConfig_def)
  from executeMission_invalid_key [OF h, of exampleWorld "''mission-1''" exampleGoal
      "newRun [] [] [] []"] h
  show ?thesis by (simp add: newRun_def)
qed

subsection \<open>The examples of the specification\<close>

lemma normalizePhone_examples:
  "normalizePhone (Some ''619-233-3338'') = Some ''+16192333338''"
  "normalizePhone (Some ''1-619-233-3338'') = Some ''+16192333338''"
  "normalizePhone (Some ''abc'') = None"
  by (simp_all add: normalizePhone_def trim_def isSpace_def isDigit_def)

lemma nameSimilarity_same: "nameSimilarity a a = 1"
  by (simp add: nameSimilarity_def)

lemma duplicate_suppression:
  "findExistingLead plainPlatform [acmeRow \<lparr> Lead.canonicalDomain := Some ''acme.com'' \<rparr>]
     \<lparr> Criteria.placeId = None, Criteria.domain = Some ''https://www.acme.com/'',
       Criteria.phone = None, Criteria.name = Some ''Acme'', Criteria.city = None \<rparr>
   = Some (acmeRow \<lparr> Lead.canonicalDomain := Some ''acme.com'' \<rparr>)"
  by code_simp

lemma auditSite_threw:
  "siteFetch w url = Threw errName errMessage
   \<Longrightarrow> auditSite w url = defaultAudit ''timeout'' \<or> auditSite w url = defaultAudit ''error''"
  by (simp add: auditSite_def)
end
